theory Spec2Isabelle
  imports Main
begin

section \<open>Errors and Python helpers\<close>

text \<open>
  Every exception the modelled code can raise is a value. \<open>SystemExit\<close> is what
  Python's \<open>exit()\<close> raises after the diagnostic has been printed.
\<close>

datatype error =
    KeyError string
  | IndexError
  | AssertionError string
  | SystemExit
  | AttributeError string
  | NameError string

text \<open>\<open>xs[i]\<close> for a non-negative index: out of range raises \<open>IndexError\<close>.\<close>

definition py_index :: "'a list \<Rightarrow> nat \<Rightarrow> error + 'a" where
  "py_index xs i = (if i < length xs then Inr (xs ! i) else Inl IndexError)"

text \<open>\<open>xs[i]\<close> for any integer: a negative index counts from the end.\<close>

definition py_index_int :: "'a list \<Rightarrow> int \<Rightarrow> error + 'a" where
  "py_index_int xs i =
    (if 0 \<le> i \<and> i < int (length xs) then Inr (xs ! nat i)
     else if i < 0 \<and> - int (length xs) \<le> i then Inr (xs ! nat (int (length xs) + i))
     else Inl IndexError)"

text \<open>
  \<open>str(n)\<close> for a non-negative integer: its decimal digits, the digit \<open>d\<close> being
  the character of code \<open>ord('0') + d\<close>.
\<close>

definition digit_char :: "nat \<Rightarrow> char" where
  "digit_char d = char_of (48 + d)"

fun str_nat :: "nat \<Rightarrow> string" where
  "str_nat n = (if n < 10 then [digit_char n] else str_nat (n div 10) @ [digit_char (n mod 10)])"

declare str_nat.simps [simp del]

section \<open>Stage specifications and the architecture catalog (resnet.py, lines 32--102, 755--770)\<close>

text \<open>
  \<open>StageSpec\<close> is the namedtuple of the source. Its values only ever come from the
  literals of the catalog below, all of them positive, so both counters are \<open>nat\<close>.
\<close>

record StageSpec =
  index :: nat
  block_count :: nat
  return_features :: bool

definition mk_specs :: "(nat \<times> nat \<times> bool) list \<Rightarrow> StageSpec list" where
  "mk_specs = map (\<lambda>(i, c, r). \<lparr>index = i, block_count = c, return_features = r\<rparr>)"

definition ResNet50StagesTo5 :: "StageSpec list" where
  "ResNet50StagesTo5 = mk_specs [(1, 3, False), (2, 4, False), (3, 6, False), (4, 3, True)]"

definition ResNet50StagesTo4 :: "StageSpec list" where
  "ResNet50StagesTo4 = mk_specs [(1, 3, False), (2, 4, False), (3, 6, True)]"

definition ResNet101StagesTo5 :: "StageSpec list" where
  "ResNet101StagesTo5 = mk_specs [(1, 3, False), (2, 4, False), (3, 23, False), (4, 3, True)]"

definition ResNet101StagesTo4 :: "StageSpec list" where
  "ResNet101StagesTo4 = mk_specs [(1, 3, False), (2, 4, False), (3, 23, True)]"

definition ResNet50FPNStagesTo5 :: "StageSpec list" where
  "ResNet50FPNStagesTo5 = mk_specs [(1, 3, True), (2, 4, True), (3, 6, True), (4, 3, True)]"

definition ResNet101FPNStagesTo5 :: "StageSpec list" where
  "ResNet101FPNStagesTo5 = mk_specs [(1, 3, True), (2, 4, True), (3, 23, True), (4, 3, True)]"

definition ResNet152FPNStagesTo5 :: "StageSpec list" where
  "ResNet152FPNStagesTo5 = mk_specs [(1, 3, True), (2, 8, True), (3, 36, True), (4, 3, True)]"

definition ResNet50_3_4_2 :: "StageSpec list" where
  "ResNet50_3_4_2 = mk_specs [(1, 3, False), (2, 4, False), (3, 2, True)]"

definition ResNet50_3_4_8 :: "StageSpec list" where
  "ResNet50_3_4_8 = mk_specs [(1, 3, False), (2, 4, False), (3, 8, True)]"

definition ResNet50_3_4_14 :: "StageSpec list" where
  "ResNet50_3_4_14 = mk_specs [(1, 3, False), (2, 4, False), (3, 14, True)]"

definition ResNet50_3_4_20 :: "StageSpec list" where
  "ResNet50_3_4_20 = mk_specs [(1, 3, False), (2, 4, False), (3, 20, True)]"

text \<open>The registry \<open>_STAGE_SPECS\<close>: a dictionary, in the order of the source.\<close>

definition STAGE_SPECS :: "(string \<times> StageSpec list) list" where
  "STAGE_SPECS =
    [(''R-50-C4'', ResNet50StagesTo4),
     (''R-50-C5'', ResNet50StagesTo5),
     (''R-101-C4'', ResNet101StagesTo4),
     (''R-101-C5'', ResNet101StagesTo5),
     (''R-50-FPN'', ResNet50FPNStagesTo5),
     (''R-50-FPN-RETINANET'', ResNet50FPNStagesTo5),
     (''R-101-FPN'', ResNet101FPNStagesTo5),
     (''R-101-FPN-RETINANET'', ResNet101FPNStagesTo5),
     (''R-152-FPN'', ResNet152FPNStagesTo5),
     (''R-50-3_4_2'', ResNet50_3_4_2),
     (''R-50-3_4_8'', ResNet50_3_4_8),
     (''R-50-3_4_14'', ResNet50_3_4_14),
     (''R-50-3_4_20'', ResNet50_3_4_20)]"

text \<open>Subscripting a registry: a missing key raises \<open>KeyError\<close>.\<close>

definition registry_get :: "(string \<times> 'a) list \<Rightarrow> string \<Rightarrow> error + 'a" where
  "registry_get reg k = (case map_of reg k of None \<Rightarrow> Inl (KeyError k) | Some v \<Rightarrow> Inr v)"

section \<open>Layers\<close>

text \<open>
  A layer is recorded as the call that constructs it: an argument the source does not
  pass is \<open>None\<close> (the operator's own default applies). \<open>requires_grad\<close> is the flag
  of the layer's parameter tensors: a parameter is created trainable, and in the modelled
  code only the freezing methods (\<open>_freeze_backbone\<close>, \<open>_freeze\<close>) write the flag. Weight initialisation
  (\<open>kaiming_uniform_\<close>) draws random numbers and is not modelled.
\<close>

record Conv2d =
  c_in :: int
  c_out :: int
  c_kernel_size :: int
  c_stride :: "int option"
  c_padding :: "int option"
  c_bias :: bool
  c_groups :: "int option"
  c_dilation :: "int option"
  c_requires_grad :: bool

record DFConv2d =
  d_in :: int
  d_out :: int
  d_with_modulated_dcn :: bool
  d_kernel_size :: int
  d_stride :: int
  d_groups :: int
  d_dilation :: int
  d_deformable_groups :: int
  d_bias :: bool
  d_requires_grad :: bool

datatype spatial_conv = Plain Conv2d | Deformable DFConv2d

text \<open>
  The normalisation constructors a block can be given (\<open>norm_func\<close>), and the layer
  each call builds; \<open>BatchNorm2d\<close> is what \<open>use_unfixed_bn\<close> substitutes.
\<close>

datatype norm_func = FrozenBatchNorm2d | group_norm

datatype norm_kind = By_norm_func norm_func | BatchNorm2d

record norm_layer =
  n_kind :: norm_kind
  n_channels :: int
  n_requires_grad :: bool

definition norm_call :: "norm_func \<Rightarrow> int \<Rightarrow> norm_layer" where
  "norm_call nf ch = \<lparr>n_kind = By_norm_func nf, n_channels = ch, n_requires_grad = True\<rparr>"

definition BatchNorm2d_call :: "int \<Rightarrow> norm_layer" where
  "BatchNorm2d_call ch = \<lparr>n_kind = BatchNorm2d, n_channels = ch, n_requires_grad = True\<rparr>"

text \<open>The dictionary \<open>dcn_config\<close>: three optional keys, read with \<open>.get(key, default)\<close>.\<close>

record dcn_config =
  stage_with_dcn :: "bool option"
  with_modulated_dcn :: "bool option"
  deformable_groups :: "int option"

definition dict_get :: "'a option \<Rightarrow> 'a \<Rightarrow> 'a" where
  "dict_get entry dflt = (case entry of None \<Rightarrow> dflt | Some v \<Rightarrow> v)"

section \<open>The residual block (resnet.py, lines 523--650)\<close>

record Bottleneck =
  downsample :: "(Conv2d \<times> norm_layer) option"
  conv1 :: Conv2d
  bn1 :: norm_layer
  conv2 :: spatial_conv
  bn2 :: norm_layer
  conv3 :: Conv2d
  bn3 :: norm_layer

definition Bottleneck_init ::
  "int \<Rightarrow> int \<Rightarrow> int \<Rightarrow> int \<Rightarrow> bool \<Rightarrow> int \<Rightarrow> int \<Rightarrow> norm_func \<Rightarrow> dcn_config \<Rightarrow> int \<Rightarrow> bool
    \<Rightarrow> Bottleneck" where
  "Bottleneck_init in_channels bottleneck_channels out_channels num_groups stride_in_1x1
      stride dilation nf dcn middle_k use_unfixed_bn =
    (let ds =
          (if in_channels \<noteq> out_channels then
             (let down_stride = stride in
              Some (\<lparr>c_in = in_channels, c_out = out_channels, c_kernel_size = 1,
                      c_stride = Some down_stride, c_padding = None, c_bias = False,
                      c_groups = None, c_dilation = None, c_requires_grad = True\<rparr>,
                    norm_call nf out_channels))
           else None);
         (stride_1x1, stride_3x3) = (if stride_in_1x1 then (stride, 1) else (1, stride));
         c1 = \<lparr>c_in = in_channels, c_out = bottleneck_channels, c_kernel_size = 1,
                c_stride = Some stride_1x1, c_padding = None, c_bias = False,
                c_groups = None, c_dilation = None, c_requires_grad = True\<rparr>;
         b1 = (if use_unfixed_bn then BatchNorm2d_call bottleneck_channels
               else norm_call nf bottleneck_channels);
         with_dcn = dict_get (stage_with_dcn dcn) False;
         c2 =
          (if with_dcn then
             (let dgroups = dict_get (deformable_groups dcn) 1;
                  modulated = dict_get (with_modulated_dcn dcn) False in
              Deformable \<lparr>d_in = bottleneck_channels, d_out = bottleneck_channels,
                           d_with_modulated_dcn = modulated, d_kernel_size = middle_k,
                           d_stride = stride_3x3, d_groups = num_groups,
                           d_dilation = dilation, d_deformable_groups = dgroups,
                           d_bias = False, d_requires_grad = True\<rparr>)
           else
             (let padding = (if middle_k = 1 then 0 else dilation) in
              Plain \<lparr>c_in = bottleneck_channels, c_out = bottleneck_channels,
                      c_kernel_size = middle_k, c_stride = Some stride_3x3,
                      c_padding = Some padding, c_bias = False, c_groups = Some num_groups,
                      c_dilation = Some dilation, c_requires_grad = True\<rparr>));
         b2 = (if use_unfixed_bn then BatchNorm2d_call bottleneck_channels
               else norm_call nf bottleneck_channels);
         c3 = \<lparr>c_in = bottleneck_channels, c_out = out_channels, c_kernel_size = 1,
                c_stride = None, c_padding = None, c_bias = False,
                c_groups = None, c_dilation = None, c_requires_grad = True\<rparr>;
         b3 = (if use_unfixed_bn then BatchNorm2d_call out_channels
               else norm_call nf out_channels)
     in \<lparr>downsample = ds, conv1 = c1, bn1 = b1, conv2 = c2, bn2 = b2, conv3 = c3, bn3 = b3\<rparr>)"

text \<open>
  The two registered block classes differ in the normalisation constructor they hand to
  \<open>Bottleneck.__init__\<close>; \<open>_TRANSFORMATION_MODULES\<close> is their registry.
\<close>

datatype transformation = BottleneckWithFixedBatchNorm | BottleneckWithGN

definition transformation_norm :: "transformation \<Rightarrow> norm_func" where
  "transformation_norm tm =
    (case tm of BottleneckWithFixedBatchNorm \<Rightarrow> FrozenBatchNorm2d | BottleneckWithGN \<Rightarrow> group_norm)"

definition transformation_call ::
  "transformation \<Rightarrow> int \<Rightarrow> int \<Rightarrow> int \<Rightarrow> int \<Rightarrow> bool \<Rightarrow> int \<Rightarrow> int \<Rightarrow> dcn_config \<Rightarrow> int \<Rightarrow> bool
    \<Rightarrow> Bottleneck" where
  "transformation_call tm in_channels bottleneck_channels out_channels num_groups stride_in_1x1
      stride dilation dcn middle_k use_unfixed_bn =
    Bottleneck_init in_channels bottleneck_channels out_channels num_groups stride_in_1x1
      stride dilation (transformation_norm tm) dcn middle_k use_unfixed_bn"

definition TRANSFORMATION_MODULES :: "(string \<times> transformation) list" where
  "TRANSFORMATION_MODULES =
    [(''BottleneckWithFixedBatchNorm'', BottleneckWithFixedBatchNorm),
     (''BottleneckWithGN'', BottleneckWithGN)]"

section \<open>The stage builder (resnet.py, lines 483--520)\<close>

text \<open>
  The loop over \<open>range(block_count)\<close>: \<open>stride\<close> and \<open>in_channels\<close> are the loop's
  two mutable variables, reset to \<open>1\<close> and \<open>out_channels\<close> after every block.
  \<open>middle_ks[i]\<close> raises \<open>IndexError\<close> when the list is too short.
\<close>

fun make_stage_loop ::
  "transformation \<Rightarrow> int \<Rightarrow> int \<Rightarrow> int \<Rightarrow> bool \<Rightarrow> int \<Rightarrow> dcn_config \<Rightarrow> int list \<Rightarrow> bool
    \<Rightarrow> nat list \<Rightarrow> int \<Rightarrow> int \<Rightarrow> Bottleneck list \<Rightarrow> error + Bottleneck list" where
  "make_stage_loop tm bottleneck_channels out_channels num_groups stride_in_1x1 dilation dcn
      middle_ks use_unfixed_bn [] stride in_channels blocks = Inr blocks"
| "make_stage_loop tm bottleneck_channels out_channels num_groups stride_in_1x1 dilation dcn
      middle_ks use_unfixed_bn (i # rest) stride in_channels blocks =
    (case py_index middle_ks i of
       Inl e \<Rightarrow> Inl e
     | Inr middle_k \<Rightarrow>
         make_stage_loop tm bottleneck_channels out_channels num_groups stride_in_1x1 dilation
           dcn middle_ks use_unfixed_bn rest 1 out_channels
           (blocks @ [transformation_call tm in_channels bottleneck_channels out_channels
                        num_groups stride_in_1x1 stride dilation dcn middle_k use_unfixed_bn]))"

definition make_stage ::
  "transformation \<Rightarrow> int \<Rightarrow> int \<Rightarrow> int \<Rightarrow> nat \<Rightarrow> int \<Rightarrow> bool \<Rightarrow> int \<Rightarrow> int \<Rightarrow> dcn_config
    \<Rightarrow> int list \<Rightarrow> bool \<Rightarrow> error + Bottleneck list" where
  "make_stage tm in_channels bottleneck_channels out_channels n_blocks num_groups
      stride_in_1x1 first_stride dilation dcn middle_ks use_unfixed_bn =
    (let middle_ks = (if middle_ks = [] then replicate n_blocks 3 else middle_ks) in
     make_stage_loop tm bottleneck_channels out_channels num_groups stride_in_1x1 dilation dcn
       middle_ks use_unfixed_bn [0..<n_blocks] first_stride in_channels [])"

section \<open>Forward pass of a block (resnet.py, lines 630--650)\<close>

text \<open>
  Tensors and the primitive operators are opaque: the forward pass is modelled over any
  tensor type \<open>'t\<close>, with the operators as parameters. \<open>relu_\<close> and \<open>+=\<close> work in
  place on \<open>out\<close>, a tensor the block itself has just produced, never on its input.
\<close>

record 't tensor_ops =
  conv_op :: "Conv2d \<Rightarrow> 't \<Rightarrow> 't"
  dfconv_op :: "DFConv2d \<Rightarrow> 't \<Rightarrow> 't"
  norm_op :: "norm_layer \<Rightarrow> 't \<Rightarrow> 't"
  relu_op :: "'t \<Rightarrow> 't"
  add_op :: "'t \<Rightarrow> 't \<Rightarrow> 't"
  max_pool2d_op :: "'t \<Rightarrow> 't"

definition spatial_op :: "'t tensor_ops \<Rightarrow> spatial_conv \<Rightarrow> 't \<Rightarrow> 't" where
  "spatial_op ops c x = (case c of Plain p \<Rightarrow> conv_op ops p x | Deformable d \<Rightarrow> dfconv_op ops d x)"

text \<open>The statements of \<open>forward\<close> up to and including \<open>out = self.bn3(out)\<close>.\<close>

definition main_path :: "'t tensor_ops \<Rightarrow> Bottleneck \<Rightarrow> 't \<Rightarrow> 't" where
  "main_path ops b x =
    (let out = conv_op ops (conv1 b) x;
         out = norm_op ops (bn1 b) out;
         out = relu_op ops out;
         out = spatial_op ops (conv2 b) out;
         out = norm_op ops (bn2 b) out;
         out = relu_op ops out;
         out = conv_op ops (conv3 b) out;
         out = norm_op ops (bn3 b) out
     in out)"

definition Bottleneck_forward :: "'t tensor_ops \<Rightarrow> Bottleneck \<Rightarrow> 't \<Rightarrow> 't" where
  "Bottleneck_forward ops b x =
    (let identity = x;
         out = main_path ops b x;
         identity = (case downsample b of
                       None \<Rightarrow> identity
                     | Some (c, n) \<Rightarrow> norm_op ops n (conv_op ops c x));
         out = add_op ops out identity;
         out = relu_op ops out
     in out)"

text \<open>\<open>nn.Sequential\<close>: the blocks applied one after the other.\<close>

definition Sequential_forward :: "'t tensor_ops \<Rightarrow> Bottleneck list \<Rightarrow> 't \<Rightarrow> 't" where
  "Sequential_forward ops blocks x = fold (Bottleneck_forward ops) blocks x"

section \<open>Configuration\<close>

text \<open>
  The fields of the configuration object that the modelled code reads, under their
  last path component (\<open>cfg.MODEL.RESNETS.DILATIONS\<close> is \<open>DILATIONS\<close>).
\<close>

record cfg =
  STEM_FUNC :: string
  CONV_BODY :: string
  TRANS_FUNC :: string
  USE_FPN :: bool
  RESREG :: int
  ANCHOR_STRIDE :: "int list"
  DILATIONS :: "int list"
  NUM_GROUPS :: int
  WIDTH_PER_GROUP :: int
  STEM_OUT_CHANNELS :: int
  RES2_OUT_CHANNELS :: int
  BACKBONE_OUT_CHANNELS :: int
  STAGE_WITH_DCN :: "bool list"
  WITH_MODULATED_DCN :: bool
  DEFORMABLE_GROUPS :: int
  STRIDE_IN_1X1 :: bool
  MIDDLE_KERNEL_SIZES :: "int list list"
  DONT_LOAD :: "string list"
  FREEZE_CONV_BODY_AT :: int
  EWADAPTIVE_C2 :: "(int \<times> int) list"
  EWADAPTIVE_C3 :: "(int \<times> int) list"
  EWADAPTIVE_C4 :: "(int \<times> int) list"

section \<open>The stem (resnet.py, lines 653--672, 704--708, 740--753)\<close>

record BaseStem =
  stem_conv1 :: Conv2d
  stem_bn1 :: norm_layer

definition BaseStem_init :: "cfg \<Rightarrow> norm_func \<Rightarrow> BaseStem" where
  "BaseStem_init c nf =
    (let out_channels = STEM_OUT_CHANNELS c in
     \<lparr>stem_conv1 = \<lparr>c_in = 3, c_out = out_channels, c_kernel_size = 7, c_stride = Some 2,
                     c_padding = Some 3, c_bias = False, c_groups = None, c_dilation = None,
                     c_requires_grad = True\<rparr>,
      stem_bn1 = norm_call nf out_channels\<rparr>)"

datatype stem_class = StemWithFixedBatchNorm | StemWithGN

definition stem_call :: "stem_class \<Rightarrow> cfg \<Rightarrow> BaseStem" where
  "stem_call sc c =
    (case sc of
       StemWithFixedBatchNorm \<Rightarrow> BaseStem_init c FrozenBatchNorm2d
     | StemWithGN \<Rightarrow> BaseStem_init c group_norm)"

definition STEM_MODULES :: "(string \<times> stem_class) list" where
  "STEM_MODULES =
    [(''StemWithFixedBatchNorm'', StemWithFixedBatchNorm), (''StemWithGN'', StemWithGN)]"

definition BaseStem_forward :: "'t tensor_ops \<Rightarrow> BaseStem \<Rightarrow> 't \<Rightarrow> 't" where
  "BaseStem_forward ops s x =
    (let x = conv_op ops (stem_conv1 s) x;
         x = norm_op ops (stem_bn1 s) x;
         x = relu_op ops x;
         x = max_pool2d_op ops x
     in x)"

section \<open>The backbone (resnet.py, lines 305--420)\<close>

text \<open>
  \<open>layers\<close> holds the children registered with \<open>add_module\<close> and read back with
  \<open>getattr\<close>; \<open>stages\<close> is the list of their names, \<open>return_features_of\<close> the
  dictionary \<open>self.return_features\<close>.
\<close>

record ResNet =
  stem :: BaseStem
  stages :: "string list"
  layers :: "string \<rightharpoonup> Bottleneck list"
  return_features_of :: "string \<rightharpoonup> bool"

definition layer_name :: "nat \<Rightarrow> string" where
  "layer_name i = ''layer'' @ str_nat i"

text \<open>
  Lines 321--334: the stride table. \<open>None\<close> is the variable \<open>strides\<close> left unbound
  (the table is skipped); \<open>ANCHOR_STRIDE[0]\<close> on an empty tuple raises \<open>IndexError\<close>.
\<close>

definition anchor_strides :: "cfg \<Rightarrow> error + int list option" where
  "anchor_strides c =
    (if \<not> USE_FPN c \<and> RESREG c = 0 then
       (case py_index (ANCHOR_STRIDE c) 0 of
          Inl e \<Rightarrow> Inl e
        | Inr a \<Rightarrow>
            if a = 4 then Inr (Some [1, 1, 1])
            else if a = 8 then Inr (Some [1, 1, 2])
            else if a = 16 then Inr (Some [1, 2, 2])
            else if a = 32 then Inr (Some [2, 2, 2])
            else Inl SystemExit)
     else Inr None)"

text \<open>
  Line 338 is \<open>assert(condition, message)\<close>: the operand of \<open>assert\<close> is a tuple of
  two elements, and a tuple is true exactly when it is not empty. The model keeps the
  statement as it is written.
\<close>

datatype pyval = PyBool bool | PyStr string

definition dilations_assert :: "cfg \<Rightarrow> StageSpec list \<Rightarrow> error + unit" where
  "dilations_assert c stage_specs =
    (let operand =
           [PyBool (length (DILATIONS c) = length stage_specs),
            PyStr ''ERROR: cfg.MODEL.RESNETS.DILATIONS length does not match length of stage_spec'']
     in if operand \<noteq> [] then Inr () else Inl (AssertionError []))"

text \<open>Lines 355--359: the kernel sizes of one stage, and the assertion on their number.\<close>

definition stage_middle_ks :: "cfg \<Rightarrow> nat \<Rightarrow> StageSpec \<Rightarrow> error + int list" where
  "stage_middle_ks c stage_idx stage_spec =
    (case (if MIDDLE_KERNEL_SIZES c \<noteq> [] then py_index (MIDDLE_KERNEL_SIZES c) stage_idx
           else Inr (replicate (block_count stage_spec) 3)) of
       Inl e \<Rightarrow> Inl e
     | Inr middle_ks \<Rightarrow>
         if length middle_ks = block_count stage_spec then Inr middle_ks
         else Inl (AssertionError
                (''Length of middle_ks does not match block count at stage: '' @ str_nat stage_idx)))"

text \<open>Lines 365--370: the first stride and the dilation of one stage.\<close>

definition stage_stride_dilation ::
  "cfg \<Rightarrow> int list option \<Rightarrow> nat \<Rightarrow> StageSpec \<Rightarrow> error + int \<times> int" where
  "stage_stride_dilation c strides stage_idx stage_spec =
    (if USE_FPN c \<or> RESREG c \<noteq> 0 then
       Inr ((if index stage_spec > 1 then 1 else 0) + 1, 1)
     else
       (case strides of
          None \<Rightarrow> Inl (NameError ''strides'')
        | Some ss \<Rightarrow>
            (case py_index ss stage_idx of
               Inl e \<Rightarrow> Inl e
             | Inr first_stride \<Rightarrow>
                 (case py_index (DILATIONS c) stage_idx of
                    Inl e \<Rightarrow> Inl e
                  | Inr dilation \<Rightarrow> Inr (first_stride, dilation)))))"

definition stage_out_channels :: "cfg \<Rightarrow> StageSpec \<Rightarrow> int" where
  "stage_out_channels c stage_spec =
    (let stage2_out_channels = RES2_OUT_CHANNELS c;
         stage2_relative_factor = 2 ^ (index stage_spec - 1)
     in stage2_out_channels * stage2_relative_factor)"

text \<open>One iteration of the loop of lines 348--390, up to the module it builds.\<close>

definition build_stage ::
  "cfg \<Rightarrow> transformation \<Rightarrow> int list option \<Rightarrow> nat \<Rightarrow> StageSpec \<Rightarrow> int
    \<Rightarrow> error + Bottleneck list" where
  "build_stage c tm strides stage_idx stage_spec in_channels =
    (let num_groups = NUM_GROUPS c;
         width_per_group = WIDTH_PER_GROUP c;
         stage2_bottleneck_channels = num_groups * width_per_group;
         name = layer_name (index stage_spec);
         stage2_relative_factor = 2 ^ (index stage_spec - 1);
         bottleneck_channels = stage2_bottleneck_channels * stage2_relative_factor;
         out_channels = stage_out_channels c stage_spec
     in case py_index (STAGE_WITH_DCN c) (index stage_spec - 1) of
          Inl e \<Rightarrow> Inl e
        | Inr with_dcn \<Rightarrow>
       (case stage_middle_ks c stage_idx stage_spec of
          Inl e \<Rightarrow> Inl e
        | Inr middle_ks \<Rightarrow>
       (let use_unfixed_bn =
              (name \<in> set (DONT_LOAD c) \<and> TRANS_FUNC c = ''BottleneckWithFixedBatchNorm'')
        in case stage_stride_dilation c strides stage_idx stage_spec of
             Inl e \<Rightarrow> Inl e
           | Inr (first_stride, dilation) \<Rightarrow>
               make_stage tm in_channels bottleneck_channels out_channels
                 (block_count stage_spec) num_groups (STRIDE_IN_1X1 c) first_stride dilation
                 \<lparr>stage_with_dcn = Some with_dcn,
                  with_modulated_dcn = Some (WITH_MODULATED_DCN c),
                  deformable_groups = Some (DEFORMABLE_GROUPS c)\<rparr>
                 middle_ks use_unfixed_bn)))"

text \<open>The loop over \<open>enumerate(stage_specs)\<close>, with \<open>in_channels\<close> chained forward.\<close>

fun ResNet_init_loop ::
  "cfg \<Rightarrow> transformation \<Rightarrow> int list option \<Rightarrow> (nat \<times> StageSpec) list \<Rightarrow> int \<Rightarrow> ResNet
    \<Rightarrow> error + ResNet" where
  "ResNet_init_loop c tm strides [] in_channels self = Inr self"
| "ResNet_init_loop c tm strides ((stage_idx, stage_spec) # rest) in_channels self =
    (case build_stage c tm strides stage_idx stage_spec in_channels of
       Inl e \<Rightarrow> Inl e
     | Inr module \<Rightarrow>
         (let name = layer_name (index stage_spec) in
          ResNet_init_loop c tm strides rest (stage_out_channels c stage_spec)
            (self\<lparr>layers := (layers self)(name \<mapsto> module),
                  stages := stages self @ [name],
                  return_features_of :=
                    (return_features_of self)(name \<mapsto> return_features stage_spec)\<rparr>)))"

definition enumerate_py :: "'a list \<Rightarrow> (nat \<times> 'a) list" where
  "enumerate_py xs = zip [0..<length xs] xs"

subsection \<open>Freezing (lines 399--408)\<close>

definition freeze_conv :: "Conv2d \<Rightarrow> Conv2d" where
  "freeze_conv cv = cv\<lparr>c_requires_grad := False\<rparr>"

definition freeze_norm :: "norm_layer \<Rightarrow> norm_layer" where
  "freeze_norm n = n\<lparr>n_requires_grad := False\<rparr>"

definition freeze_spatial :: "spatial_conv \<Rightarrow> spatial_conv" where
  "freeze_spatial sc =
    (case sc of Plain p \<Rightarrow> Plain (freeze_conv p)
              | Deformable d \<Rightarrow> Deformable (d\<lparr>d_requires_grad := False\<rparr>))"

definition freeze_block :: "Bottleneck \<Rightarrow> Bottleneck" where
  "freeze_block b =
    \<lparr>downsample = map_option (\<lambda>(cv, n). (freeze_conv cv, freeze_norm n)) (downsample b),
     conv1 = freeze_conv (conv1 b), bn1 = freeze_norm (bn1 b),
     conv2 = freeze_spatial (conv2 b), bn2 = freeze_norm (bn2 b),
     conv3 = freeze_conv (conv3 b), bn3 = freeze_norm (bn3 b)\<rparr>"

definition freeze_stem :: "BaseStem \<Rightarrow> BaseStem" where
  "freeze_stem s =
    \<lparr>stem_conv1 = freeze_conv (stem_conv1 s), stem_bn1 = freeze_norm (stem_bn1 s)\<rparr>"

text \<open>\<open>m.parameters()\<close>, as the \<open>requires_grad\<close> flags of the module's layers.\<close>

definition spatial_requires_grad :: "spatial_conv \<Rightarrow> bool" where
  "spatial_requires_grad sc =
    (case sc of Plain p \<Rightarrow> c_requires_grad p | Deformable d \<Rightarrow> d_requires_grad d)"

definition block_parameters :: "Bottleneck \<Rightarrow> bool list" where
  "block_parameters b =
    (case downsample b of None \<Rightarrow> [] | Some (cv, n) \<Rightarrow> [c_requires_grad cv, n_requires_grad n])
    @ [c_requires_grad (conv1 b), n_requires_grad (bn1 b), spatial_requires_grad (conv2 b),
       n_requires_grad (bn2 b), c_requires_grad (conv3 b), n_requires_grad (bn3 b)]"

definition stage_parameters :: "Bottleneck list \<Rightarrow> bool list" where
  "stage_parameters blocks = concat (map block_parameters blocks)"

definition stem_parameters :: "BaseStem \<Rightarrow> bool list" where
  "stem_parameters s = [c_requires_grad (stem_conv1 s), n_requires_grad (stem_bn1 s)]"

text \<open>
  The loop over \<open>range(freeze_at)\<close>. \<open>getattr\<close> of a child that was never registered
  raises \<open>AttributeError\<close>.
\<close>

fun freeze_loop :: "nat list \<Rightarrow> ResNet \<Rightarrow> error + ResNet" where
  "freeze_loop [] self = Inr self"
| "freeze_loop (stage_index # rest) self =
    (if stage_index = 0 then freeze_loop rest (self\<lparr>stem := freeze_stem (stem self)\<rparr>)
     else
       (case layers self (layer_name stage_index) of
          None \<Rightarrow> Inl (AttributeError (layer_name stage_index))
        | Some m \<Rightarrow>
            freeze_loop rest
              (self\<lparr>layers := (layers self)(layer_name stage_index \<mapsto> map freeze_block m)\<rparr>)))"

definition freeze_backbone :: "ResNet \<Rightarrow> int \<Rightarrow> error + ResNet" where
  "freeze_backbone self freeze_at =
    (if freeze_at < 0 then Inr self else freeze_loop [0..<nat freeze_at] self)"

subsection \<open>Construction (lines 306--397)\<close>

definition ResNet_init :: "cfg \<Rightarrow> error + ResNet" where
  "ResNet_init c =
    (case registry_get STEM_MODULES (STEM_FUNC c) of
       Inl e \<Rightarrow> Inl e
     | Inr stem_module \<Rightarrow>
    (case registry_get STAGE_SPECS (CONV_BODY c) of
       Inl e \<Rightarrow> Inl e
     | Inr stage_specs \<Rightarrow>
    (case registry_get TRANSFORMATION_MODULES (TRANS_FUNC c) of
       Inl e \<Rightarrow> Inl e
     | Inr transformation_module \<Rightarrow>
    (let self = \<lparr>stem = stem_call stem_module c, stages = [], layers = Map.empty,
                 return_features_of = Map.empty\<rparr>
     in case anchor_strides c of
          Inl e \<Rightarrow> Inl e
        | Inr strides \<Rightarrow>
       (case dilations_assert c stage_specs of
          Inl e \<Rightarrow> Inl e
        | Inr _ \<Rightarrow>
       (case ResNet_init_loop c transformation_module strides (enumerate_py stage_specs)
               (STEM_OUT_CHANNELS c) self of
          Inl e \<Rightarrow> Inl e
        | Inr self \<Rightarrow> freeze_backbone self (FREEZE_CONV_BODY_AT c)))))))"

subsection \<open>Forward pass (lines 410--420)\<close>

fun ResNet_forward_loop ::
  "'t tensor_ops \<Rightarrow> ResNet \<Rightarrow> string list \<Rightarrow> 't \<Rightarrow> 't list \<Rightarrow> error + 't list" where
  "ResNet_forward_loop ops self [] x outputs = Inr outputs"
| "ResNet_forward_loop ops self (stage_name # rest) x outputs =
    (case layers self stage_name of
       None \<Rightarrow> Inl (AttributeError stage_name)
     | Some m \<Rightarrow>
         (let x = Sequential_forward ops m x in
          case return_features_of self stage_name of
            None \<Rightarrow> Inl (KeyError stage_name)
          | Some exported \<Rightarrow>
              ResNet_forward_loop ops self rest x
                (if exported then outputs @ [x] else outputs)))"

definition ResNet_forward :: "'t tensor_ops \<Rightarrow> ResNet \<Rightarrow> 't \<Rightarrow> error + 't list" where
  "ResNet_forward ops self x =
    (let outputs = [];
         x = BaseStem_forward ops (stem self) x
     in ResNet_forward_loop ops self (stages self) x outputs)"

section \<open>The builder (backbone.py, lines 24--44)\<close>

text \<open>
  The adapters of module \<open>resreg\<close> are not part of the modelled files: the model records
  which one the builder appends.
\<close>

datatype resreg = Up4x | Up2x | Down2x | Keep1x

record backbone =
  body :: ResNet
  rr :: "resreg option"
  model_out_channels :: int

definition build_resnet_backbone :: "cfg \<Rightarrow> error + backbone" where
  "build_resnet_backbone c =
    (case ResNet_init c of
       Inl e \<Rightarrow> Inl e
     | Inr b \<Rightarrow>
         (case (if RESREG c = 4 then Inr (Some Up4x)
                else if RESREG c = 2 then Inr (Some Up2x)
                else if RESREG c = - 2 then Inr (Some Down2x)
                else if RESREG c = 1 then Inr (Some Keep1x)
                else if RESREG c = 0 then Inr None
                else Inl SystemExit) of
            Inl e \<Rightarrow> Inl e
          | Inr adapter \<Rightarrow>
              Inr \<lparr>body = b, rr = adapter,
                   model_out_channels = BACKBONE_OUT_CHANNELS c\<rparr>))"

section \<open>The DDPP classes (resnet.py, lines 204--299)\<close>

text \<open>
  A global name is looked up when the statement that mentions it runs. These are the
  names module \<open>resnet\<close> binds at its top level (imports, assignments, \<open>def\<close> and
  \<open>class\<close> statements), in the order of the source; the classes \<open>ResNet_Stem\<close> and
  \<open>ResNet_Stage\<close> of lines 108--198 are comments and bind nothing. A name that is
  neither here nor a builtin raises \<open>NameError\<close>.
\<close>

definition resnet_globals :: "string list" where
  "resnet_globals =
    [''namedtuple'', ''torch'', ''F'', ''nn'', ''FrozenBatchNorm2d'', ''Conv2d'', ''DFConv2d'',
     ''group_norm'', ''Registry'', ''StageSpec'',
     ''ResNet50StagesTo5'', ''ResNet50StagesTo4'', ''ResNet101StagesTo5'', ''ResNet101StagesTo4'',
     ''ResNet50FPNStagesTo5'', ''ResNet101FPNStagesTo5'', ''ResNet152FPNStagesTo5'',
     ''ResNet50_3_4_2'', ''ResNet50_3_4_8'', ''ResNet50_3_4_14'', ''ResNet50_3_4_20'',
     ''DDPP_Stem'', ''DDPP_Stage'', ''ResNet'', ''ResNetHead'', ''_make_stage'', ''Bottleneck'',
     ''BaseStem'', ''BottleneckWithFixedBatchNorm'', ''StemWithFixedBatchNorm'',
     ''BottleneckWithGN'', ''StemWithGN'',
     ''_TRANSFORMATION_MODULES'', ''_STEM_MODULES'', ''_STAGE_SPECS'']"

definition load_global :: "string \<Rightarrow> error + unit" where
  "load_global name = (if name \<in> set resnet_globals then Inr () else Inl (NameError name))"

record DDPP_Stem =
  dstem_conv1 :: Conv2d
  dstem_bn1 :: norm_layer

text \<open>Line 209: \<open>super(DDPPStem, self).__init__()\<close> evaluates the global \<open>DDPPStem\<close>.\<close>

definition DDPP_Stem_init :: "cfg \<Rightarrow> norm_func \<Rightarrow> error + DDPP_Stem" where
  "DDPP_Stem_init c nf =
    (case load_global ''DDPPStem'' of
       Inl e \<Rightarrow> Inl e
     | Inr _ \<Rightarrow>
         (let out_channels = STEM_OUT_CHANNELS c in
          Inr \<lparr>dstem_conv1 = \<lparr>c_in = 3, c_out = out_channels, c_kernel_size = 3,
                                c_stride = Some 2, c_padding = Some 1, c_bias = False,
                                c_groups = None, c_dilation = None, c_requires_grad = True\<rparr>,
               dstem_bn1 = norm_call group_norm out_channels\<rparr>))"

record DDPP_Stage =
  dstage_out_channels :: int
  branches :: "string list"
  branch_modules :: "string \<rightharpoonup> Bottleneck list"

text \<open>The loop over \<open>range(len(ewa_spec))\<close> of lines 266--285.\<close>

fun DDPP_Stage_branches ::
  "cfg \<Rightarrow> transformation \<Rightarrow> int \<Rightarrow> int \<Rightarrow> nat \<Rightarrow> int \<Rightarrow> bool \<Rightarrow> (int \<times> int) list \<Rightarrow> nat list
    \<Rightarrow> DDPP_Stage \<Rightarrow> error + DDPP_Stage" where
  "DDPP_Stage_branches c tm in_channels bottleneck_channels n_blocks num_groups with_dcn
      ewa_spec [] self = Inr self"
| "DDPP_Stage_branches c tm in_channels bottleneck_channels n_blocks num_groups with_dcn
      ewa_spec (branch_idx # rest) self =
    (let name = ''branch'' @ str_nat branch_idx in
     case py_index ewa_spec branch_idx of
       Inl e \<Rightarrow> Inl e
     | Inr (first_stride, dilation) \<Rightarrow>
         (case make_stage tm in_channels bottleneck_channels (dstage_out_channels self)
                 n_blocks num_groups (STRIDE_IN_1X1 c) first_stride dilation
                 \<lparr>stage_with_dcn = Some with_dcn,
                  with_modulated_dcn = Some (WITH_MODULATED_DCN c),
                  deformable_groups = Some (DEFORMABLE_GROUPS c)\<rparr>
                 [] False of
            Inl e \<Rightarrow> Inl e
          | Inr module \<Rightarrow>
              DDPP_Stage_branches c tm in_channels bottleneck_channels n_blocks num_groups
                with_dcn ewa_spec rest
                (self\<lparr>branch_modules := (branch_modules self)(name \<mapsto> module),
                      branches := branches self @ [name]\<rparr>)))"

text \<open>
  \<open>_freeze\<close> (lines 290--294): every branch, read back with \<open>getattr\<close>, has its
  parameters made non-trainable.
\<close>

fun DDPP_Stage_freeze :: "nat list \<Rightarrow> DDPP_Stage \<Rightarrow> error + DDPP_Stage" where
  "DDPP_Stage_freeze [] self = Inr self"
| "DDPP_Stage_freeze (b # rest) self =
    (let name = ''branch'' @ str_nat b in
     case branch_modules self name of
       None \<Rightarrow> Inl (AttributeError name)
     | Some m \<Rightarrow>
         DDPP_Stage_freeze rest
           (self\<lparr>branch_modules := (branch_modules self)(name \<mapsto> map freeze_block m)\<rparr>))"

text \<open>
  Line 232: \<open>super(ResNet_Stage, self).__init__()\<close> evaluates the global
  \<open>ResNet_Stage\<close> before anything else. Line 238 is again the assertion of a tuple.
  A \<open>stage\<close> other than 2, 3 or 4 leaves \<open>ewa_spec\<close> unbound.
\<close>

definition DDPP_Stage_init :: "cfg \<Rightarrow> int \<Rightarrow> int \<Rightarrow> error + DDPP_Stage" where
  "DDPP_Stage_init c stage in_channels =
    (case load_global ''ResNet_Stage'' of
       Inl e \<Rightarrow> Inl e
     | Inr _ \<Rightarrow>
    (let operand = [PyBool (stage \<ge> 2 \<and> stage \<le> 4),
                    PyStr ''Error: stage argument out of bounds.'']
     in if operand = [] then Inl (AssertionError []) else
    (case registry_get STAGE_SPECS (CONV_BODY c) of
       Inl e \<Rightarrow> Inl e
     | Inr stage_specs \<Rightarrow>
    (case registry_get TRANSFORMATION_MODULES (TRANS_FUNC c) of
       Inl e \<Rightarrow> Inl e
     | Inr transformation_module \<Rightarrow>
    (case py_index_int stage_specs (stage - 2) of
       Inl e \<Rightarrow> Inl e
     | Inr stage_spec \<Rightarrow>
    (let num_groups = NUM_GROUPS c;
         width_per_group = WIDTH_PER_GROUP c;
         stage2_bottleneck_channels = num_groups * width_per_group;
         stage2_out_channels = RES2_OUT_CHANNELS c;
         stage2_relative_factor = 2 ^ (index stage_spec - 1);
         bottleneck_channels = stage2_bottleneck_channels * stage2_relative_factor
     in case py_index (STAGE_WITH_DCN c) (index stage_spec - 1) of
          Inl e \<Rightarrow> Inl e
        | Inr with_dcn \<Rightarrow>
       (let self = \<lparr>dstage_out_channels = stage2_out_channels * stage2_relative_factor,
                    branches = [], branch_modules = Map.empty\<rparr>
        in case (if stage = 2 then Inr (EWADAPTIVE_C2 c)
                 else if stage = 3 then Inr (EWADAPTIVE_C3 c)
                 else if stage = 4 then Inr (EWADAPTIVE_C4 c)
                 else Inl (NameError ''ewa_spec'')) of
             Inl e \<Rightarrow> Inl e
           | Inr ewa_spec \<Rightarrow>
          (case DDPP_Stage_branches c transformation_module in_channels bottleneck_channels
                  (block_count stage_spec) num_groups with_dcn ewa_spec
                  [0..<length ewa_spec] self of
             Inl e \<Rightarrow> Inl e
           | Inr self \<Rightarrow>
               if stage \<le> FREEZE_CONV_BODY_AT c
               then DDPP_Stage_freeze [0..<length (branches self)] self
               else Inr self))))))))"

section \<open>Observers used in the statements\<close>

text \<open>What a spatial convolution of either kind was constructed with.\<close>

definition spatial_stride :: "spatial_conv \<Rightarrow> int option" where
  "spatial_stride sc = (case sc of Plain p \<Rightarrow> c_stride p | Deformable d \<Rightarrow> Some (d_stride d))"


text \<open>
  The outputs of all stages, exported or not: each stage is applied to the output of
  the one before it.
\<close>

fun stage_outputs :: "'t tensor_ops \<Rightarrow> Bottleneck list list \<Rightarrow> 't \<Rightarrow> 't list" where
  "stage_outputs ops [] x = []"
| "stage_outputs ops (m # ms) x =
    (let y = Sequential_forward ops m x in y # stage_outputs ops ms y)"

text \<open>One dictionary assignment, so that a sequence of them is a \<open>fold\<close>.\<close>

definition upd :: "'k \<times> 'v \<Rightarrow> ('k \<rightharpoonup> 'v) \<Rightarrow> ('k \<rightharpoonup> 'v)" where
  "upd kv f = f(fst kv \<mapsto> snd kv)"

text \<open>Concrete inputs for the examples below.\<close>

definition no_dcn :: dcn_config where
  "no_dcn = \<lparr>stage_with_dcn = None, with_modulated_dcn = None, deformable_groups = None\<rparr>"

definition int_ops :: "int tensor_ops" where
  "int_ops = \<lparr>conv_op = (\<lambda>cv x. x * c_out cv), dfconv_op = (\<lambda>d x. x * d_out d),
              norm_op = (\<lambda>n x. x + n_channels n), relu_op = (\<lambda>x. max 0 x),
              add_op = (\<lambda>x y. x + y), max_pool2d_op = (\<lambda>x. x)\<rparr>"

text \<open>
  A C4 configuration without pyramid network, whose \<open>BACKBONE_OUT_CHANNELS\<close> is 256,
  and a pyramid configuration for the four-stage \<open>R-50-FPN\<close> that keeps a dilation
  list of three entries.
\<close>

definition cfg_c4 :: cfg where
  "cfg_c4 = \<lparr>STEM_FUNC = ''StemWithFixedBatchNorm'', CONV_BODY = ''R-50-C4'',
     TRANS_FUNC = ''BottleneckWithFixedBatchNorm'', USE_FPN = False, RESREG = 0,
     ANCHOR_STRIDE = [16], DILATIONS = [1, 1, 1], NUM_GROUPS = 1, WIDTH_PER_GROUP = 64,
     STEM_OUT_CHANNELS = 64, RES2_OUT_CHANNELS = 256, BACKBONE_OUT_CHANNELS = 256,
     STAGE_WITH_DCN = [False, False, False, False], WITH_MODULATED_DCN = False,
     DEFORMABLE_GROUPS = 1, STRIDE_IN_1X1 = True, MIDDLE_KERNEL_SIZES = [], DONT_LOAD = [],
     FREEZE_CONV_BODY_AT = 2, EWADAPTIVE_C2 = [], EWADAPTIVE_C3 = [], EWADAPTIVE_C4 = []\<rparr>"

definition cfg_fpn :: cfg where
  "cfg_fpn = \<lparr>STEM_FUNC = ''StemWithFixedBatchNorm'', CONV_BODY = ''R-50-FPN'',
     TRANS_FUNC = ''BottleneckWithFixedBatchNorm'', USE_FPN = True, RESREG = 0,
     ANCHOR_STRIDE = [4, 8, 16, 32, 64], DILATIONS = [1, 1, 1], NUM_GROUPS = 1,
     WIDTH_PER_GROUP = 64, STEM_OUT_CHANNELS = 64, RES2_OUT_CHANNELS = 256,
     BACKBONE_OUT_CHANNELS = 256, STAGE_WITH_DCN = [False, False, False, False],
     WITH_MODULATED_DCN = False, DEFORMABLE_GROUPS = 1, STRIDE_IN_1X1 = True,
     MIDDLE_KERNEL_SIZES = [], DONT_LOAD = [], FREEZE_CONV_BODY_AT = 2,
     EWADAPTIVE_C2 = [], EWADAPTIVE_C3 = [], EWADAPTIVE_C4 = []\<rparr>"


text \<open>
  The stride table in the words of the specification: anchor stride 4 gives [1,1,1],
  8 gives [1,1,2], 16 gives [1,2,2], 32 gives [2,2,2], and no other value has an entry.
\<close>

definition spec_stride_table :: "int \<Rightarrow> int list option" where
  "spec_stride_table a =
    (if a = 4 then Some [1, 1, 1]
     else if a = 8 then Some [1, 1, 2]
     else if a = 16 then Some [1, 2, 2]
     else if a = 32 then Some [2, 2, 2]
     else None)"

text \<open>Where a block's stride sits, and the dilation of its spatial convolution.\<close>

definition block_stride :: "bool \<Rightarrow> Bottleneck \<Rightarrow> int option" where
  "block_stride s1x1 b = (if s1x1 then c_stride (conv1 b) else spatial_stride (conv2 b))"

definition spatial_dilation :: "spatial_conv \<Rightarrow> int option" where
  "spatial_dilation sc = (case sc of Plain p \<Rightarrow> c_dilation p | Deformable d \<Rightarrow> Some (d_dilation d))"

section \<open>The residual block\<close>

text \<open>
  Claim C7. A block has no projection (\<open>downsample\<close> is \<open>None\<close>) exactly when
  \<open>in_channels = out_channels\<close>; otherwise the projection is a 1x1 convolution from
  \<open>in_channels\<close> to \<open>out_channels\<close> with the block's stride, followed by
  \<open>norm_func(out_channels)\<close>. It is a field of the block, built by the constructor; the
  forward pass only reads it, applies it to the block's input and adds the result (or
  the input itself, when there is no projection) to the main path before the last
  activation.
\<close>

theorem bottleneck_shortcut:
  assumes "b = Bottleneck_init ic bc oc ng s1x1 st dil nf dcn mk ub"
  shows "(downsample b = None \<longleftrightarrow> ic = oc)
    \<and> (ic \<noteq> oc \<longrightarrow>
         downsample b =
           Some (\<lparr>c_in = ic, c_out = oc, c_kernel_size = 1, c_stride = Some st,
                   c_padding = None, c_bias = False, c_groups = None, c_dilation = None,
                   c_requires_grad = True\<rparr>, norm_call nf oc))
    \<and> Bottleneck_forward ops b x =
         relu_op ops (add_op ops (main_path ops b x)
           (case downsample b of
              None \<Rightarrow> x
            | Some (cv, n) \<Rightarrow> norm_op ops n (conv_op ops cv x)))"
  using assms by (simp add: Bottleneck_init_def Bottleneck_forward_def Let_def)

theorem bottleneck_shortcut_witness:
  "downsample (Bottleneck_init 64 64 256 1 True 2 1 FrozenBatchNorm2d no_dcn 3 False) =
     Some (\<lparr>c_in = 64, c_out = 256, c_kernel_size = 1, c_stride = Some 2,
             c_padding = None, c_bias = False, c_groups = None, c_dilation = None,
             c_requires_grad = True\<rparr>, norm_call FrozenBatchNorm2d 256)
   \<and> downsample (Bottleneck_init 256 64 256 1 True 1 1 FrozenBatchNorm2d no_dcn 3 False) = None
   \<and> Bottleneck_forward int_ops
       (Bottleneck_init 256 64 256 1 True 1 1 FrozenBatchNorm2d no_dcn 3 False) 1 =
     relu_op int_ops (add_op int_ops
       (main_path int_ops
          (Bottleneck_init 256 64 256 1 True 1 1 FrozenBatchNorm2d no_dcn 3 False) 1) 1)"
proof -
  have a: "(64::int) \<noteq> 256" by simp
  note p = bottleneck_shortcut [OF refl, where ic = 64 and bc = 64 and oc = 256 and ng = 1 and ?s1x1.0 = True
    and st = 2 and dil = 1 and nf = FrozenBatchNorm2d and dcn = no_dcn and mk = 3 and ub = False
    and ops = int_ops and x = 1]
  note q = bottleneck_shortcut [OF refl, where ic = 256 and bc = 64 and oc = 256 and ng = 1 and ?s1x1.0 = True
    and st = 1 and dil = 1 and nf = FrozenBatchNorm2d and dcn = no_dcn and mk = 3 and ub = False
    and ops = int_ops and x = 1]
  from p a have "downsample (Bottleneck_init 64 64 256 1 True 2 1 FrozenBatchNorm2d no_dcn 3 False) =
     Some (\<lparr>c_in = 64, c_out = 256, c_kernel_size = 1, c_stride = Some 2,
             c_padding = None, c_bias = False, c_groups = None, c_dilation = None,
             c_requires_grad = True\<rparr>, norm_call FrozenBatchNorm2d 256)"
    by blast
  moreover from q have n: "downsample (Bottleneck_init 256 64 256 1 True 1 1 FrozenBatchNorm2d no_dcn 3 False) = None"
    by blast
  moreover from q n have "Bottleneck_forward int_ops
       (Bottleneck_init 256 64 256 1 True 1 1 FrozenBatchNorm2d no_dcn 3 False) 1 =
     relu_op int_ops (add_op int_ops
       (main_path int_ops
          (Bottleneck_init 256 64 256 1 True 1 1 FrozenBatchNorm2d no_dcn 3 False) 1) 1)"
    by simp
  ultimately show ?thesis by blast
qed

text \<open>
  Claim C8. The stride goes to the 1x1 reduce convolution when \<open>stride_in_1x1\<close> holds
  and to the spatial convolution otherwise, the other of the two getting stride 1,
  whether or not the spatial convolution is deformable. When it is not deformable,
  its padding is 0 for \<open>middle_k = 1\<close> and the dilation otherwise.
\<close>

theorem bottleneck_stride_padding:
  assumes "b = Bottleneck_init ic bc oc ng s1x1 st dil nf dcn mk ub"
  shows "c_stride (conv1 b) = Some (if s1x1 then st else 1)
    \<and> spatial_stride (conv2 b) = Some (if s1x1 then 1 else st)
    \<and> (\<not> dict_get (stage_with_dcn dcn) False \<longrightarrow>
         (\<exists>p. conv2 b = Plain p \<and> c_padding p = Some (if mk = 1 then 0 else dil)))"
  using assms by (simp add: Bottleneck_init_def Let_def spatial_stride_def)

theorem bottleneck_stride_padding_witness:
  "c_stride (conv1 (Bottleneck_init 64 64 256 1 False 2 3 group_norm no_dcn 1 False)) = Some 1
   \<and> spatial_stride (conv2 (Bottleneck_init 64 64 256 1 False 2 3 group_norm no_dcn 1 False)) = Some 2
   \<and> (\<exists>p. conv2 (Bottleneck_init 64 64 256 1 False 2 3 group_norm no_dcn 1 False) = Plain p
          \<and> c_padding p = Some 0)"
proof -
  have d: "\<not> dict_get (stage_with_dcn no_dcn) False"
    by (simp add: no_dcn_def dict_get_def)
  from bottleneck_stride_padding [OF refl, where ic = 64 and bc = 64 and oc = 256 and ng = 1
      and ?s1x1.0 = False and st = 2 and dil = 3 and nf = group_norm and dcn = no_dcn and mk = 1
      and ub = False] d
  show ?thesis by simp
qed

section \<open>The stage builder\<close>

lemma make_stage_loop_ok:
  "\<forall>i\<in>set is. i < length mks \<Longrightarrow>
   make_stage_loop tm bc oc ng s1x1 dil dcn mks ub is st ic blocks =
     Inr (blocks @ map (\<lambda>(k, i). transformation_call tm (if k = 0 then ic else oc) bc oc ng s1x1
                        (if k = 0 then st else 1) dil dcn (mks ! i) ub) (zip [0..<length is] is))"
proof (induction "is" arbitrary: st ic blocks)
  case Nil
  then show ?case by simp
next
  case (Cons i rest)
  have z: "zip [0..<length (i # rest)] (i # rest) = (0, i) # zip (map Suc [0..<length rest]) rest"
    by (simp add: upt_conv_Cons map_Suc_upt del: upt_Suc)
  show ?case using Cons
    apply (simp only: z)
    apply (simp add: py_index_def zip_map1 split_def)
    done
qed

lemma make_stage_ok:
  assumes "mks = [] \<or> n \<le> length mks"
  shows "make_stage tm ic bc oc n ng s1x1 fs dil dcn mks ub =
     Inr (map (\<lambda>i. transformation_call tm (if i = 0 then ic else oc) bc oc ng s1x1
                 (if i = 0 then fs else 1) dil dcn (if mks = [] then 3 else mks ! i) ub) [0..<n])"
proof -
  let ?mks = "if mks = [] then replicate n 3 else mks"
  have r: "\<forall>i\<in>set [0..<n]. i < length ?mks" using assms by auto
  have k: "\<forall>i\<in>set [0..<n]. ?mks ! i = (if mks = [] then 3 else mks ! i)" by auto
  have zz: "zip [0..<n] [0..<n] = map (\<lambda>i. (i, i)) [0..<n]"
    by (simp add: zip_same_conv_map)
  show ?thesis
    unfolding make_stage_def Let_def
    apply (subst make_stage_loop_ok [OF r])
    apply (simp only: length_upt diff_zero zz append_Nil)
    using k apply (simp add: o_def)
    done
qed




section \<open>Names, the catalog and the construction loop\<close>

lemma digit_char_inj: "a < 10 \<Longrightarrow> b < 10 \<Longrightarrow> digit_char a = digit_char b \<Longrightarrow> a = b"
proof -
  assume a: "a < 10" and b: "b < 10" and e: "digit_char a = digit_char b"
  from e have "(of_char (digit_char a) :: nat) = of_char (digit_char b)" by simp
  then have "(48 + a) mod 256 = (48 + b) mod 256" by (simp add: digit_char_def)
  with a b show "a = b" by simp
qed

lemma str_nat_nonempty: "str_nat n \<noteq> []"
  by (subst str_nat.simps) simp

lemma str_nat_inj: "str_nat m = str_nat n \<Longrightarrow> m = n"
proof (induction m arbitrary: n rule: str_nat.induct)
  case (1 m)
  show ?case
  proof (cases "m < 10")
    case True
    then have sm: "str_nat m = [digit_char m]" by (subst str_nat.simps) simp
    show ?thesis
    proof (cases "n < 10")
      case n: True
      then have "str_nat n = [digit_char n]" by (subst str_nat.simps) simp
      with sm "1.prems" True n show ?thesis by (simp add: digit_char_inj)
    next
      case False
      then have "str_nat n = str_nat (n div 10) @ [digit_char (n mod 10)]"
        by (subst str_nat.simps) simp
      with sm "1.prems" str_nat_nonempty [of "n div 10"] show ?thesis by simp
    qed
  next
    case False
    then have sm: "str_nat m = str_nat (m div 10) @ [digit_char (m mod 10)]"
      by (subst str_nat.simps) simp
    show ?thesis
    proof (cases "n < 10")
      case True
      then have "str_nat n = [digit_char n]" by (subst str_nat.simps) simp
      with sm "1.prems" str_nat_nonempty [of "m div 10"] show ?thesis by simp
    next
      case n: False
      then have "str_nat n = str_nat (n div 10) @ [digit_char (n mod 10)]"
        by (subst str_nat.simps) simp
      with sm "1.prems" have a: "str_nat (m div 10) = str_nat (n div 10)"
        and b: "digit_char (m mod 10) = digit_char (n mod 10)" by simp_all
      from "1.IH" [OF False a] have d: "m div 10 = n div 10" .
      have "m mod 10 < 10" "n mod 10 < 10" by simp_all
      with b have r: "m mod 10 = n mod 10" by (simp add: digit_char_inj)
      have "m = 10 * (m div 10) + m mod 10" by simp
      also have "\<dots> = 10 * (n div 10) + n mod 10" using d r by simp
      also have "\<dots> = n" by simp
      finally show ?thesis .
    qed
  qed
qed

lemma layer_name_inj: "layer_name i = layer_name j \<Longrightarrow> i = j"
  by (simp add: layer_name_def str_nat_inj)

lemma layer_names:
  "layer_name 1 = ''layer1''" "layer_name 2 = ''layer2''" "layer_name 3 = ''layer3''"
  "layer_name 4 = ''layer4''" "layer_name (Suc 0) = ''layer1''"
  by code_simp+

lemma catalog_cases:
  "registry_get STAGE_SPECS nm = Inr specs \<Longrightarrow>
     specs \<in> {ResNet50StagesTo4, ResNet50StagesTo5, ResNet101StagesTo4, ResNet101StagesTo5,
       ResNet50FPNStagesTo5, ResNet101FPNStagesTo5, ResNet152FPNStagesTo5,
       ResNet50_3_4_2, ResNet50_3_4_8, ResNet50_3_4_14, ResNet50_3_4_20}"
  unfolding registry_get_def STAGE_SPECS_def
  by (simp split: if_splits)


lemma catalog_indices:
  assumes "registry_get STAGE_SPECS nm = Inr specs"
  shows "map index specs = map Suc [0..<length specs]"
  using catalog_cases [OF assms]
  by (elim insertE emptyE)
     (simp_all add: mk_specs_def
        ResNet50StagesTo5_def ResNet50StagesTo4_def ResNet101StagesTo5_def ResNet101StagesTo4_def
        ResNet50FPNStagesTo5_def ResNet101FPNStagesTo5_def ResNet152FPNStagesTo5_def
        ResNet50_3_4_2_def ResNet50_3_4_8_def ResNet50_3_4_14_def ResNet50_3_4_20_def)

lemma catalog_names_distinct:
  assumes "registry_get STAGE_SPECS nm = Inr specs"
  shows "distinct (map (\<lambda>s. layer_name (index s)) specs)"
proof -
  have d: "distinct (map index specs)"
    unfolding catalog_indices [OF assms] by (simp add: distinct_map)
  have inj: "inj_on layer_name (set (map index specs))"
    by (rule inj_onI) (rule layer_name_inj)
  have "distinct (map layer_name (map index specs))"
    using distinct_map [of layer_name "map index specs"] d inj by blast
  then show ?thesis by (simp add: o_def)
qed

lemma catalog_index_pos:
  assumes "registry_get STAGE_SPECS nm = Inr specs" and "j < length specs"
  shows "index (specs ! j) = Suc j"
proof -
  have "map index specs ! j = map Suc [0..<length specs] ! j"
    by (simp only: catalog_indices [OF assms(1)])
  with assms(2) show ?thesis by simp
qed

lemma stage_middle_ks_Inr:
  assumes "stage_middle_ks c i s = Inr mks"
  shows "length mks = block_count s"
    and "mks = (if MIDDLE_KERNEL_SIZES c = [] then replicate (block_count s) 3
                else MIDDLE_KERNEL_SIZES c ! i)"
  using assms
  by (auto simp: stage_middle_ks_def py_index_def split: if_splits sum.splits)

lemma build_stage_Inr:
  assumes "build_stage c tm strides i s ic = Inr blocks"
  obtains wd mks fs d where
    "py_index (STAGE_WITH_DCN c) (index s - 1) = Inr wd"
    "stage_middle_ks c i s = Inr mks"
    "stage_stride_dilation c strides i s = Inr (fs, d)"
    "blocks = map (\<lambda>k. transformation_call tm (if k = 0 then ic else stage_out_channels c s)
                (NUM_GROUPS c * WIDTH_PER_GROUP c * 2 ^ (index s - 1)) (stage_out_channels c s)
                (NUM_GROUPS c) (STRIDE_IN_1X1 c) (if k = 0 then fs else 1) d
                \<lparr>stage_with_dcn = Some wd, with_modulated_dcn = Some (WITH_MODULATED_DCN c),
                 deformable_groups = Some (DEFORMABLE_GROUPS c)\<rparr>
                (mks ! k)
                (layer_name (index s) \<in> set (DONT_LOAD c)
                  \<and> TRANS_FUNC c = ''BottleneckWithFixedBatchNorm''))
              [0..<block_count s]"
proof -
  from assms obtain wd where wd: "py_index (STAGE_WITH_DCN c) (index s - 1) = Inr wd"
    by (cases "py_index (STAGE_WITH_DCN c) (index s - 1)") (simp_all add: build_stage_def Let_def)
  from assms wd obtain mks where mks: "stage_middle_ks c i s = Inr mks"
    by (cases "stage_middle_ks c i s") (simp_all add: build_stage_def Let_def)
  from assms wd mks obtain fs d where sd: "stage_stride_dilation c strides i s = Inr (fs, d)"
    by (cases "stage_stride_dilation c strides i s") (auto simp add: build_stage_def Let_def)
  let ?ub = "layer_name (index s) \<in> set (DONT_LOAD c)
               \<and> TRANS_FUNC c = ''BottleneckWithFixedBatchNorm''"
  let ?dcn = "\<lparr>stage_with_dcn = Some wd, with_modulated_dcn = Some (WITH_MODULATED_DCN c),
                 deformable_groups = Some (DEFORMABLE_GROUPS c)\<rparr>"
  from assms wd mks sd have ms:
    "make_stage tm ic (NUM_GROUPS c * WIDTH_PER_GROUP c * 2 ^ (index s - 1))
       (stage_out_channels c s) (block_count s) (NUM_GROUPS c) (STRIDE_IN_1X1 c) fs d
       ?dcn mks ?ub = Inr blocks"
    by (simp add: build_stage_def Let_def)
  have len: "length mks = block_count s" by (rule stage_middle_ks_Inr(1) [OF mks])
  then have pre: "mks = [] \<or> block_count s \<le> length mks" by simp
  have "blocks = map (\<lambda>k. transformation_call tm (if k = 0 then ic else stage_out_channels c s)
                (NUM_GROUPS c * WIDTH_PER_GROUP c * 2 ^ (index s - 1)) (stage_out_channels c s)
                (NUM_GROUPS c) (STRIDE_IN_1X1 c) (if k = 0 then fs else 1) d ?dcn
                (if mks = [] then 3 else mks ! k) ?ub) [0..<block_count s]"
    using ms unfolding make_stage_ok [OF pre] by simp
  also have "\<dots> = map (\<lambda>k. transformation_call tm (if k = 0 then ic else stage_out_channels c s)
                (NUM_GROUPS c * WIDTH_PER_GROUP c * 2 ^ (index s - 1)) (stage_out_channels c s)
                (NUM_GROUPS c) (STRIDE_IN_1X1 c) (if k = 0 then fs else 1) d ?dcn
                (mks ! k) ?ub) [0..<block_count s]"
    using len by (intro map_cong refl) auto
  finally show ?thesis using wd mks sd that by blast
qed


lemma upd_pair: "upd (k, v) f = f(k \<mapsto> v)"
  by (simp add: upd_def)

lemma fold_upd_notin:
  "k \<notin> fst ` set kvs \<Longrightarrow> fold upd kvs f0 k = f0 k"
  by (induction kvs arbitrary: f0) (auto simp: upd_def)

lemma fold_upd_in:
  "distinct (map fst kvs) \<Longrightarrow> (k, v) \<in> set kvs \<Longrightarrow> fold upd kvs f0 k = Some v"
proof (induction kvs arbitrary: f0)
  case Nil
  then show ?case by simp
next
  case (Cons kv kvs)
  show ?case
  proof (cases "(k, v) = kv")
    case True
    with Cons.prems have "k \<notin> fst ` set kvs" by force
    then have "fold upd kvs (upd kv f0) k = upd kv f0 k" by (rule fold_upd_notin)
    moreover have "upd kv f0 k = Some v" using True by (auto simp: upd_def)
    ultimately show ?thesis by simp
  next
    case False
    with Cons.prems have "(k, v) \<in> set kvs" "distinct (map fst kvs)" by auto
    with Cons.IH show ?thesis by simp
  qed
qed

lemma fold_upd_zip_nth:
  assumes "distinct ns" "length vs = length ns" "j < length ns"
  shows "fold upd (zip ns vs) f0 (ns ! j) = Some (vs ! j)"
proof -
  have "(ns ! j, vs ! j) \<in> set (zip ns vs)"
    using assms by (auto simp: set_zip)
  moreover have "distinct (map fst (zip ns vs))" using assms by simp
  ultimately show ?thesis by (rule fold_upd_in [rotated])
qed

lemma ResNet_init_loop_Inr:
  "ResNet_init_loop c tm strides (zip [k..<k + length specs] specs) ic self = Inr net \<Longrightarrow>
   stem net = stem self \<and> stages net = stages self @ map (\<lambda>s. layer_name (index s)) specs \<and>
   (\<exists>ms. length ms = length specs \<and>
      (\<forall>j<length specs. build_stage c tm strides (k + j) (specs ! j)
           (if j = 0 then ic else stage_out_channels c (specs ! (j - 1))) = Inr (ms ! j)) \<and>
      layers net = fold upd (zip (map (\<lambda>s. layer_name (index s)) specs) ms) (layers self) \<and>
      return_features_of net =
        fold upd (zip (map (\<lambda>s. layer_name (index s)) specs) (map return_features specs))
          (return_features_of self))"
proof (induction specs arbitrary: k ic self)
  case Nil
  then show ?case by simp
next
  case (Cons s specs)
  let ?self' = "self\<lparr>layers := (layers self)(layer_name (index s) \<mapsto> m),
                  stages := stages self @ [layer_name (index s)],
                  return_features_of :=
                    (return_features_of self)(layer_name (index s) \<mapsto> return_features s)\<rparr>"
  have z: "zip [k..<k + length (s # specs)] (s # specs)
             = (k, s) # zip [Suc k..<Suc k + length specs] specs"
    by (simp add: upt_conv_Cons del: upt_Suc)
  from Cons.prems obtain m where m: "build_stage c tm strides k s ic = Inr m"
    and rest: "ResNet_init_loop c tm strides (zip [Suc k..<Suc k + length specs] specs)
        (stage_out_channels c s)
        (self\<lparr>layers := (layers self)(layer_name (index s) \<mapsto> m),
              stages := stages self @ [layer_name (index s)],
              return_features_of :=
                (return_features_of self)(layer_name (index s) \<mapsto> return_features s)\<rparr>) = Inr net"
    unfolding z by (cases "build_stage c tm strides k s ic") (simp_all add: Let_def)
  note ih = Cons.IH [OF rest]
  from ih have st: "stem net = stem self" by simp
  from ih have sg: "stages net
      = stages self @ layer_name (index s) # map (\<lambda>s. layer_name (index s)) specs"
    by simp
  from ih obtain ms where
    len: "length ms = length specs"
    and bs: "\<forall>j<length specs. build_stage c tm strides (Suc k + j) (specs ! j)
           (if j = 0 then stage_out_channels c s else stage_out_channels c (specs ! (j - 1)))
           = Inr (ms ! j)"
    and ly: "layers net = fold upd (zip (map (\<lambda>s. layer_name (index s)) specs) ms)
               (layers (self\<lparr>layers := (layers self)(layer_name (index s) \<mapsto> m),
              stages := stages self @ [layer_name (index s)],
              return_features_of :=
                (return_features_of self)(layer_name (index s) \<mapsto> return_features s)\<rparr>))"
    and rf: "return_features_of net =
        fold upd (zip (map (\<lambda>s. layer_name (index s)) specs) (map return_features specs))
          (return_features_of (self\<lparr>layers := (layers self)(layer_name (index s) \<mapsto> m),
              stages := stages self @ [layer_name (index s)],
              return_features_of :=
                (return_features_of self)(layer_name (index s) \<mapsto> return_features s)\<rparr>))"
    by blast
  have all: "\<forall>j<length (s # specs). build_stage c tm strides (k + j) ((s # specs) ! j)
           (if j = 0 then ic else stage_out_channels c ((s # specs) ! (j - 1)))
           = Inr ((m # ms) ! j)"
  proof (intro allI impI)
    fix j assume j: "j < length (s # specs)"
    show "build_stage c tm strides (k + j) ((s # specs) ! j)
           (if j = 0 then ic else stage_out_channels c ((s # specs) ! (j - 1)))
           = Inr ((m # ms) ! j)"
    proof (cases j)
      case 0
      with m show ?thesis by simp
    next
      case (Suc j')
      with j bs have "build_stage c tm strides (Suc k + j') (specs ! j')
           (if j' = 0 then stage_out_channels c s else stage_out_channels c (specs ! (j' - 1)))
           = Inr (ms ! j')" by simp
      with Suc show ?thesis by (cases j') simp_all
    qed
  qed
  show ?case
    apply (intro conjI)
      apply (rule st)
     apply (simp add: sg)
    apply (rule exI [of _ "m # ms"])
    apply (intro conjI)
       apply (simp add: len)
      apply (rule all)
     apply (simp add: ly upd_pair)
    apply (simp add: rf upd_pair)
    done
qed

section \<open>Freezing and the constructed backbone\<close>

lemma freeze_conv_idem: "freeze_conv (freeze_conv cv) = freeze_conv cv"
  by (simp add: freeze_conv_def)

lemma freeze_norm_idem: "freeze_norm (freeze_norm n) = freeze_norm n"
  by (simp add: freeze_norm_def)

lemma freeze_spatial_idem: "freeze_spatial (freeze_spatial sc) = freeze_spatial sc"
  by (cases sc) (simp_all add: freeze_spatial_def freeze_conv_def)

lemma freeze_stem_idem: "freeze_stem (freeze_stem s) = freeze_stem s"
  by (simp add: freeze_stem_def freeze_conv_idem freeze_norm_idem)

lemma freeze_block_idem: "freeze_block (freeze_block b) = freeze_block b"
  by (cases "downsample b")
     (auto simp add: freeze_block_def freeze_conv_idem freeze_norm_idem freeze_spatial_idem)

lemma map_freeze_block_idem: "map freeze_block (map freeze_block m) = map freeze_block m"
  by (simp add: freeze_block_idem)

lemma freeze_loop_Inr:
  "freeze_loop is self = Inr net \<Longrightarrow>
     stem net = (if 0 \<in> set is then freeze_stem (stem self) else stem self) \<and>
     stages net = stages self \<and> return_features_of net = return_features_of self \<and>
     (\<forall>n. layers net n =
        (if n \<in> layer_name ` (set is - {0}) then map_option (map freeze_block) (layers self n)
         else layers self n))"
proof (induction "is" arbitrary: self)
  case Nil
  then show ?case by simp
next
  case (Cons i rest)
  show ?case
  proof (cases "i = 0")
    case True
    with Cons.prems have r: "freeze_loop rest (self\<lparr>stem := freeze_stem (stem self)\<rparr>) = Inr net"
      by simp
    note ih = Cons.IH [OF r]
    from ih have "stem net = freeze_stem (stem self)"
      by (simp add: freeze_stem_idem)
    moreover from ih have "stages net = stages self" "return_features_of net = return_features_of self"
      by simp_all
    moreover from ih have "\<forall>n. layers net n =
        (if n \<in> layer_name ` (set rest - {0}) then map_option (map freeze_block) (layers self n)
         else layers self n)" by simp
    ultimately show ?thesis using True by simp
  next
    case False
    with Cons.prems obtain m where lm: "layers self (layer_name i) = Some m"
      and r: "freeze_loop rest
          (self\<lparr>layers := (layers self)(layer_name i \<mapsto> map freeze_block m)\<rparr>) = Inr net"
      by (cases "layers self (layer_name i)") simp_all
    note ih = Cons.IH [OF r]
    from ih False have a: "stem net = (if 0 \<in> set (i # rest) then freeze_stem (stem self) else stem self)"
      by simp
    from ih have b: "stages net = stages self" "return_features_of net = return_features_of self"
      by simp_all
    from ih have l: "\<forall>n. layers net n =
        (if n \<in> layer_name ` (set rest - {0})
         then map_option (map freeze_block) (((layers self)(layer_name i \<mapsto> map freeze_block m)) n)
         else ((layers self)(layer_name i \<mapsto> map freeze_block m)) n)" by simp
    have c: "layers net n =
        (if n \<in> layer_name ` (set (i # rest) - {0}) then map_option (map freeze_block) (layers self n)
         else layers self n)" for n
    proof (cases "n = layer_name i")
      case True
      have "n \<in> layer_name ` (set (i # rest) - {0})" using True False by simp
      moreover have "layers net n = Some (map freeze_block m)"
        using l [rule_format, of n] True by (simp add: freeze_block_idem)
      ultimately show ?thesis using lm True by simp
    next
      case ne: False
      then have "n \<in> layer_name ` (set (i # rest) - {0}) \<longleftrightarrow> n \<in> layer_name ` (set rest - {0})"
        by auto
      with l [rule_format, of n] ne show ?thesis by simp
    qed
    from a b c show ?thesis by blast
  qed
qed

lemma ResNet_init_Inr:
  assumes "ResNet_init c = Inr net"
  obtains sm specs tm strides ms where
    "registry_get STEM_MODULES (STEM_FUNC c) = Inr sm"
    "registry_get STAGE_SPECS (CONV_BODY c) = Inr specs"
    "registry_get TRANSFORMATION_MODULES (TRANS_FUNC c) = Inr tm"
    "anchor_strides c = Inr strides"
    "length ms = length specs"
    "\<forall>j<length specs. build_stage c tm strides j (specs ! j)
        (if j = 0 then STEM_OUT_CHANNELS c else stage_out_channels c (specs ! (j - 1)))
        = Inr (ms ! j)"
    "stages net = map (\<lambda>s. layer_name (index s)) specs"
    "stem net = (if 0 < FREEZE_CONV_BODY_AT c then freeze_stem (stem_call sm c)
                 else stem_call sm c)"
    "\<forall>j<length specs. layers net (layer_name (index (specs ! j))) =
        Some (if int (index (specs ! j)) < FREEZE_CONV_BODY_AT c
              then map freeze_block (ms ! j) else ms ! j)"
    "\<forall>j<length specs. return_features_of net (layer_name (index (specs ! j))) =
        Some (return_features (specs ! j))"
proof -
  let ?f = "FREEZE_CONV_BODY_AT c"
  from assms obtain sm where sm: "registry_get STEM_MODULES (STEM_FUNC c) = Inr sm"
    by (cases "registry_get STEM_MODULES (STEM_FUNC c)") (simp_all add: ResNet_init_def)
  from assms sm obtain specs where sp: "registry_get STAGE_SPECS (CONV_BODY c) = Inr specs"
    by (cases "registry_get STAGE_SPECS (CONV_BODY c)") (simp_all add: ResNet_init_def)
  from assms sm sp obtain tm where tm: "registry_get TRANSFORMATION_MODULES (TRANS_FUNC c) = Inr tm"
    by (cases "registry_get TRANSFORMATION_MODULES (TRANS_FUNC c)") (simp_all add: ResNet_init_def)
  from assms sm sp tm obtain strides where sr: "anchor_strides c = Inr strides"
    by (cases "anchor_strides c") (simp_all add: ResNet_init_def Let_def)
  let ?self = "\<lparr>stem = stem_call sm c, stages = [], layers = Map.empty,
                 return_features_of = Map.empty\<rparr>"
  have da: "dilations_assert c specs = Inr ()" by (simp add: dilations_assert_def)
  from assms sm sp tm sr da obtain net1 where
    lp: "ResNet_init_loop c tm strides (zip [0..<0 + length specs] specs) (STEM_OUT_CHANNELS c)
           ?self = Inr net1"
    and fz: "freeze_backbone net1 ?f = Inr net"
    by (cases "ResNet_init_loop c tm strides (enumerate_py specs) (STEM_OUT_CHANNELS c) ?self")
       (simp_all add: ResNet_init_def Let_def enumerate_py_def)
  let ?names = "map (\<lambda>s. layer_name (index s)) specs"
  from ResNet_init_loop_Inr [OF lp] obtain ms where
    st1: "stem net1 = stem_call sm c"
    and sg1: "stages net1 = ?names"
    and len: "length ms = length specs"
    and bs: "\<forall>j<length specs. build_stage c tm strides j (specs ! j)
        (if j = 0 then STEM_OUT_CHANNELS c else stage_out_channels c (specs ! (j - 1)))
        = Inr (ms ! j)"
    and ly1: "layers net1 = fold upd (zip ?names ms) Map.empty"
    and rf1: "return_features_of net1 = fold upd (zip ?names (map return_features specs)) Map.empty"
    by auto
  have dn: "distinct ?names" by (rule catalog_names_distinct [OF sp])
  have l1: "layers net1 (layer_name (index (specs ! j))) = Some (ms ! j)" if "j < length specs" for j
    using fold_upd_zip_nth [OF dn, of ms j Map.empty] that len by (simp add: ly1)
  have r1: "return_features_of net1 (layer_name (index (specs ! j))) = Some (return_features (specs ! j))"
    if "j < length specs" for j
    using fold_upd_zip_nth [OF dn, of "map return_features specs" j Map.empty] that
    by (simp add: rf1)
  have idx: "index (specs ! j) = Suc j" if "j < length specs" for j
    by (rule catalog_index_pos [OF sp that])
  have fin: "stages net = ?names
    \<and> stem net = (if 0 < ?f then freeze_stem (stem_call sm c) else stem_call sm c)
    \<and> (\<forall>j<length specs. layers net (layer_name (index (specs ! j))) =
        Some (if int (index (specs ! j)) < ?f then map freeze_block (ms ! j) else ms ! j))
    \<and> (\<forall>j<length specs. return_features_of net (layer_name (index (specs ! j))) =
        Some (return_features (specs ! j)))"
  proof (cases "?f < 0")
    case True
    with fz have "net = net1" by (simp add: freeze_backbone_def)
    with True st1 sg1 l1 r1 show ?thesis by simp
  next
    case False
    with fz have fl: "freeze_loop [0..<nat ?f] net1 = Inr net" by (simp add: freeze_backbone_def)
    note fr = freeze_loop_Inr [OF fl]
    from fr have s: "stem net = (if 0 < ?f then freeze_stem (stem_call sm c) else stem_call sm c)"
      using st1 by auto
    from fr sg1 have g: "stages net = ?names" by simp
    from fr have rr: "return_features_of net = return_features_of net1" by simp
    have ll: "layers net (layer_name (index (specs ! j))) =
        Some (if int (index (specs ! j)) < ?f then map freeze_block (ms ! j) else ms ! j)"
      if j: "j < length specs" for j
    proof -
      have "layer_name (index (specs ! j)) \<in> layer_name ` (set [0..<nat ?f] - {0})
              \<longleftrightarrow> index (specs ! j) \<in> set [0..<nat ?f] - {0}"
        using layer_name_inj by blast
      also have "\<dots> \<longleftrightarrow> int (index (specs ! j)) < ?f"
        using idx [OF j] by auto
      finally have m: "layer_name (index (specs ! j)) \<in> layer_name ` (set [0..<nat ?f] - {0})
              \<longleftrightarrow> int (index (specs ! j)) < ?f" .
      from fr have "layers net (layer_name (index (specs ! j))) =
        (if layer_name (index (specs ! j)) \<in> layer_name ` (set [0..<nat ?f] - {0})
         then map_option (map freeze_block) (layers net1 (layer_name (index (specs ! j))))
         else layers net1 (layer_name (index (specs ! j))))" by blast
      then show ?thesis unfolding m l1 [OF j] by simp
    qed
    from s g rr ll r1 show ?thesis by simp
  qed
  show ?thesis
    using that [OF sm sp tm sr len bs] fin by blast
qed

section \<open>The DDPP classes\<close>

text \<open>
  Claim C10. Whatever the configuration and the arguments, constructing a
  \<open>DDPP_Stage\<close> raises \<open>NameError\<close> for the global \<open>ResNet_Stage\<close>, and
  constructing a \<open>DDPP_Stem\<close> raises \<open>NameError\<close> for the global \<open>DDPPStem\<close>:
  neither constructor ever returns an instance.
\<close>

theorem ddpp_constructors_raise:
  "DDPP_Stage_init c stage in_channels = Inl (NameError ''ResNet_Stage'')
   \<and> DDPP_Stem_init c nf = Inl (NameError ''DDPPStem'')"
  by (simp add: DDPP_Stage_init_def DDPP_Stem_init_def load_global_def resnet_globals_def)

section \<open>The dilation list\<close>

text \<open>
  Claim C4 does not hold of the code: the statement that should compare the length of
  the dilation list with the number of stages never fails. With three dilations for
  the four stages of \<open>R-50-FPN\<close>, construction returns a backbone of four stages;
  without a pyramid network, two dilations for the three stages of \<open>R-50-C4\<close> raise
  \<open>IndexError\<close> at the third stage, after two stages have been built.
\<close>

theorem dilations_never_checked:
  "dilations_assert c specs = Inr ()
   \<and> registry_get STAGE_SPECS (CONV_BODY cfg_fpn) = Inr ResNet50FPNStagesTo5
   \<and> length (DILATIONS cfg_fpn) = 3 \<and> length ResNet50FPNStagesTo5 = 4
   \<and> map_sum id stages (ResNet_init cfg_fpn) = Inr [''layer1'', ''layer2'', ''layer3'', ''layer4'']
   \<and> map_sum id stages (ResNet_init (cfg_c4\<lparr>DILATIONS := [1, 1]\<rparr>)) = Inl IndexError"
proof -
  have 1: "dilations_assert c specs = Inr ()" by (simp add: dilations_assert_def)
  have 2: "registry_get STAGE_SPECS (CONV_BODY cfg_fpn) = Inr ResNet50FPNStagesTo5" by code_simp
  have 3: "length (DILATIONS cfg_fpn) = 3" by (simp add: cfg_fpn_def)
  have 4: "length ResNet50FPNStagesTo5 = 4" by (simp add: ResNet50FPNStagesTo5_def mk_specs_def)
  have 5: "map_sum id stages (ResNet_init cfg_fpn) = Inr [''layer1'', ''layer2'', ''layer3'', ''layer4'']"
    by code_simp
  have 6: "map_sum id stages (ResNet_init (cfg_c4\<lparr>DILATIONS := [1, 1]\<rparr>)) = Inl IndexError"
    by code_simp
  from 1 2 3 4 5 6 show ?thesis by blast
qed

section \<open>The builder\<close>

lemma conv3_out_call:
  "c_out (conv3 (transformation_call tm ic bc oc ng s1x1 st dil dcn mk ub)) = oc"
  by (simp add: transformation_call_def Bottleneck_init_def Let_def)

lemma conv3_freeze: "c_out (conv3 (freeze_block b)) = c_out (conv3 b)"
  by (simp add: freeze_block_def freeze_conv_def)

lemma catalog_nonempty:
  assumes "registry_get STAGE_SPECS nm = Inr specs"
  shows "specs \<noteq> []"
  using catalog_cases [OF assms]
  by (elim insertE emptyE)
     (simp_all add: mk_specs_def
        ResNet50StagesTo5_def ResNet50StagesTo4_def ResNet101StagesTo5_def ResNet101StagesTo4_def
        ResNet50FPNStagesTo5_def ResNet101FPNStagesTo5_def ResNet152FPNStagesTo5_def
        ResNet50_3_4_2_def ResNet50_3_4_8_def ResNet50_3_4_14_def ResNet50_3_4_20_def)

lemma build_stage_length:
  assumes "build_stage c tm strides i s ic = Inr blocks"
  shows "length blocks = block_count s"
proof -
  from assms obtain wd mks fs d where
    "blocks = map (\<lambda>k. transformation_call tm (if k = 0 then ic else stage_out_channels c s)
                (NUM_GROUPS c * WIDTH_PER_GROUP c * 2 ^ (index s - 1)) (stage_out_channels c s)
                (NUM_GROUPS c) (STRIDE_IN_1X1 c) (if k = 0 then fs else 1) d
                \<lparr>stage_with_dcn = Some wd, with_modulated_dcn = Some (WITH_MODULATED_DCN c),
                 deformable_groups = Some (DEFORMABLE_GROUPS c)\<rparr>
                (mks ! k)
                (layer_name (index s) \<in> set (DONT_LOAD c)
                  \<and> TRANS_FUNC c = ''BottleneckWithFixedBatchNorm''))
              [0..<block_count s]"
    by (rule build_stage_Inr)
  then show ?thesis by simp
qed

lemma build_stage_conv3:
  assumes "build_stage c tm strides i s ic = Inr blocks" and "b \<in> set blocks"
  shows "c_out (conv3 b) = stage_out_channels c s"
proof -
  from assms(1) obtain wd mks fs d where
    "blocks = map (\<lambda>k. transformation_call tm (if k = 0 then ic else stage_out_channels c s)
                (NUM_GROUPS c * WIDTH_PER_GROUP c * 2 ^ (index s - 1)) (stage_out_channels c s)
                (NUM_GROUPS c) (STRIDE_IN_1X1 c) (if k = 0 then fs else 1) d
                \<lparr>stage_with_dcn = Some wd, with_modulated_dcn = Some (WITH_MODULATED_DCN c),
                 deformable_groups = Some (DEFORMABLE_GROUPS c)\<rparr>
                (mks ! k)
                (layer_name (index s) \<in> set (DONT_LOAD c)
                  \<and> TRANS_FUNC c = ''BottleneckWithFixedBatchNorm''))
              [0..<block_count s]"
    by (rule build_stage_Inr)
  with assms(2) show ?thesis by (auto simp: conv3_out_call)
qed

text \<open>
  Claim C1, as first stated, fails: for \<open>R-50-C4\<close> with 256 stage-2 output channels
  the final stage (index 3) has 1024 channels, but the builder returns a backbone whose
  \<open>out_channels\<close> is the configured \<open>BACKBONE_OUT_CHANNELS\<close>, here 256.
\<close>

theorem out_channels_counterexample:
  "map_sum id model_out_channels (build_resnet_backbone cfg_c4) = Inr 256
   \<and> registry_get STAGE_SPECS (CONV_BODY cfg_c4) = Inr ResNet50StagesTo4
   \<and> RES2_OUT_CHANNELS cfg_c4 * 2 ^ (index (last ResNet50StagesTo4) - 1) = 1024"
proof -
  have 1: "map_sum id model_out_channels (build_resnet_backbone cfg_c4) = Inr 256" by code_simp
  have 2: "registry_get STAGE_SPECS (CONV_BODY cfg_c4) = Inr ResNet50StagesTo4" by code_simp
  have 3: "RES2_OUT_CHANNELS cfg_c4 * 2 ^ (index (last ResNet50StagesTo4) - 1) = 1024"
    by (simp add: cfg_c4_def ResNet50StagesTo4_def mk_specs_def)
  from 1 2 3 show ?thesis by blast
qed

text \<open>
  Claim C1, amended. Whenever the builder returns, the \<open>out_channels\<close> of the
  returned backbone is the configured \<open>BACKBONE_OUT_CHANNELS\<close>, whatever the stages
  are; and in the body it wraps, the final stage of the architecture has as many blocks
  as its specification says, each with output channel count
  \<open>RES2_OUT_CHANNELS * 2 ^ (K - 1)\<close>, \<open>K\<close> being the final stage's index.
\<close>

theorem builder_out_channels:
  assumes "build_resnet_backbone c = Inr bb"
    and "registry_get STAGE_SPECS (CONV_BODY c) = Inr specs"
  shows "model_out_channels bb = BACKBONE_OUT_CHANNELS c
    \<and> (\<exists>m. layers (body bb) (layer_name (index (last specs))) = Some m
          \<and> length m = block_count (last specs)
          \<and> (\<forall>b\<in>set m. c_out (conv3 b)
                = RES2_OUT_CHANNELS c * 2 ^ (index (last specs) - 1)))"
proof -
  from assms(1) obtain net where net: "ResNet_init c = Inr net"
    by (cases "ResNet_init c") (simp_all add: build_resnet_backbone_def)
  from assms(1) net have bd: "body bb = net" and oc: "model_out_channels bb = BACKBONE_OUT_CHANNELS c"
    by (auto simp: build_resnet_backbone_def split: if_splits)
  from net obtain sm specs' tm strides ms where
    sp: "registry_get STAGE_SPECS (CONV_BODY c) = Inr specs'"
    and len: "length ms = length specs'"
    and bs: "\<forall>j<length specs'. build_stage c tm strides j (specs' ! j)
        (if j = 0 then STEM_OUT_CHANNELS c else stage_out_channels c (specs' ! (j - 1)))
        = Inr (ms ! j)"
    and ly: "\<forall>j<length specs'. layers net (layer_name (index (specs' ! j))) =
        Some (if int (index (specs' ! j)) < FREEZE_CONV_BODY_AT c
              then map freeze_block (ms ! j) else ms ! j)"
    by (rule ResNet_init_Inr)
  from sp assms(2) have eq: "specs' = specs" by simp
  note bs = bs [unfolded eq] and ly = ly [unfolded eq]
  have ne: "specs \<noteq> []" by (rule catalog_nonempty [OF assms(2)])
  define j where "j = length specs - 1"
  have j: "j < length specs" and lj: "last specs = specs ! j"
    using ne by (simp_all add: j_def last_conv_nth)
  let ?m = "if int (index (specs ! j)) < FREEZE_CONV_BODY_AT c
              then map freeze_block (ms ! j) else ms ! j"
  from ly j have 1: "layers net (layer_name (index (specs ! j))) = Some ?m" by blast
  from bs j have "build_stage c tm strides j (specs ! j)
        (if j = 0 then STEM_OUT_CHANNELS c else stage_out_channels c (specs ! (j - 1)))
        = Inr (ms ! j)" by blast
  then have bj: "build_stage c tm strides j (specs ! j)
        (if j = 0 then STEM_OUT_CHANNELS c else stage_out_channels c (specs ! (j - 1)))
        = Inr (ms ! j)" .
  have 2: "length ?m = block_count (specs ! j)"
    using build_stage_length [OF bj] by simp
  have u: "c_out (conv3 b) = RES2_OUT_CHANNELS c * 2 ^ (index (specs ! j) - 1)"
    if "b \<in> set (ms ! j)" for b
    using build_stage_conv3 [OF bj that] by (simp add: stage_out_channels_def Let_def)
  have 3: "\<forall>b\<in>set ?m. c_out (conv3 b) = RES2_OUT_CHANNELS c * 2 ^ (index (specs ! j) - 1)"
  proof (cases "int (index (specs ! j)) < FREEZE_CONV_BODY_AT c")
    case True
    have "c_out (conv3 b) = RES2_OUT_CHANNELS c * 2 ^ (index (specs ! j) - 1)"
      if "b \<in> set (map freeze_block (ms ! j))" for b
    proof -
      from that obtain b' where "b' \<in> set (ms ! j)" "b = freeze_block b'" by auto
      then show ?thesis by (simp add: conv3_freeze u)
    qed
    with True show ?thesis by simp
  next
    case False
    with u show ?thesis by simp
  qed
  from 1 2 3 oc show ?thesis unfolding lj bd by blast
qed

theorem builder_out_channels_witness:
  "(case build_resnet_backbone cfg_c4 of
      Inl e \<Rightarrow> False
    | Inr bb \<Rightarrow> model_out_channels bb = 256
        \<and> map_option (map (\<lambda>b. c_out (conv3 b))) (layers (body bb) ''layer3'')
            = Some [1024, 1024, 1024, 1024, 1024, 1024])"
proof -
  have ok: "(case build_resnet_backbone cfg_c4 of Inl e \<Rightarrow> False | Inr bb \<Rightarrow> True)"
    by code_simp
  then obtain bb where bb: "build_resnet_backbone cfg_c4 = Inr bb"
    by (cases "build_resnet_backbone cfg_c4") simp_all
  have sp: "registry_get STAGE_SPECS (CONV_BODY cfg_c4) = Inr ResNet50StagesTo4" by code_simp
  have l: "last ResNet50StagesTo4 = \<lparr>index = 3, block_count = 6, return_features = True\<rparr>"
    by (simp add: ResNet50StagesTo4_def mk_specs_def)
  from builder_out_channels [OF bb sp] obtain m where
    a: "model_out_channels bb = BACKBONE_OUT_CHANNELS cfg_c4"
    and b: "layers (body bb) (layer_name 3) = Some m"
    and c: "length m = 6"
    and d: "\<forall>b\<in>set m. c_out (conv3 b) = RES2_OUT_CHANNELS cfg_c4 * 2 ^ (3 - 1)"
    unfolding l by auto
  from c d have "map (\<lambda>b. c_out (conv3 b)) m = replicate 6 (RES2_OUT_CHANNELS cfg_c4 * 2 ^ (3 - 1))"
    by (intro nth_equalityI) simp_all
  then have "map (\<lambda>b. c_out (conv3 b)) m = [1024, 1024, 1024, 1024, 1024, 1024]"
    by (simp add: cfg_c4_def numeral_eq_Suc)
  with a b bb show ?thesis by (simp add: layer_names cfg_c4_def)
qed

section \<open>Freezing\<close>

lemma block_parameters_call:
  "p \<in> set (block_parameters (transformation_call tm ic bc oc ng s1x1 st dil dcn mk ub)) \<Longrightarrow> p"
  by (auto simp: block_parameters_def transformation_call_def Bottleneck_init_def Let_def
      norm_call_def BatchNorm2d_call_def spatial_requires_grad_def split: if_splits)

lemma block_parameters_freeze: "p \<in> set (block_parameters (freeze_block b)) \<Longrightarrow> \<not> p"
  by (cases "downsample b"; cases "conv2 b")
     (auto simp: block_parameters_def freeze_block_def freeze_conv_def freeze_norm_def
        freeze_spatial_def spatial_requires_grad_def)

lemma stem_parameters_call: "p \<in> set (stem_parameters (stem_call sm c)) \<Longrightarrow> p"
  by (cases sm) (auto simp: stem_parameters_def stem_call_def BaseStem_init_def norm_call_def Let_def)

lemma stem_parameters_freeze: "p \<in> set (stem_parameters (freeze_stem s)) \<Longrightarrow> \<not> p"
  by (auto simp: stem_parameters_def freeze_stem_def freeze_conv_def freeze_norm_def)

lemma build_stage_parameters:
  assumes "build_stage c tm strides i s ic = Inr blocks" and "p \<in> set (stage_parameters blocks)"
  shows "p"
proof -
  from assms(1) obtain wd mks fs d where
    "blocks = map (\<lambda>k. transformation_call tm (if k = 0 then ic else stage_out_channels c s)
                (NUM_GROUPS c * WIDTH_PER_GROUP c * 2 ^ (index s - 1)) (stage_out_channels c s)
                (NUM_GROUPS c) (STRIDE_IN_1X1 c) (if k = 0 then fs else 1) d
                \<lparr>stage_with_dcn = Some wd, with_modulated_dcn = Some (WITH_MODULATED_DCN c),
                 deformable_groups = Some (DEFORMABLE_GROUPS c)\<rparr>
                (mks ! k)
                (layer_name (index s) \<in> set (DONT_LOAD c)
                  \<and> TRANS_FUNC c = ''BottleneckWithFixedBatchNorm''))
              [0..<block_count s]"
    by (rule build_stage_Inr)
  with assms(2) obtain k where "p \<in> set (block_parameters
       (transformation_call tm (if k = 0 then ic else stage_out_channels c s)
                (NUM_GROUPS c * WIDTH_PER_GROUP c * 2 ^ (index s - 1)) (stage_out_channels c s)
                (NUM_GROUPS c) (STRIDE_IN_1X1 c) (if k = 0 then fs else 1) d
                \<lparr>stage_with_dcn = Some wd, with_modulated_dcn = Some (WITH_MODULATED_DCN c),
                 deformable_groups = Some (DEFORMABLE_GROUPS c)\<rparr>
                (mks ! k)
                (layer_name (index s) \<in> set (DONT_LOAD c)
                  \<and> TRANS_FUNC c = ''BottleneckWithFixedBatchNorm'')))"
    unfolding stage_parameters_def by auto
  then show ?thesis by (rule block_parameters_call)
qed

lemma stage_parameters_freeze:
  "p \<in> set (stage_parameters (map freeze_block m)) \<Longrightarrow> \<not> p"
  unfolding stage_parameters_def using block_parameters_freeze by auto

text \<open>
  Claim C2. In every constructed backbone, with \<open>f\<close> the configured
  \<open>FREEZE_CONV_BODY_AT\<close> and the stem counted as stage 0: a parameter of the stem is
  trainable exactly when \<open>f \<le> 0\<close>, and a parameter of the stage of index \<open>i\<close> is
  trainable exactly when \<open>f \<le> i\<close>. So every stage below \<open>f\<close> (the stem included)
  is frozen, every stage from \<open>f\<close> on stays trainable, and \<open>f = 0\<close> freezes nothing,
  as any negative \<open>f\<close> does. Every stage has as many blocks as its specification says,
  so none of these parameter sets is empty.
\<close>

theorem freeze_backbone_parameters:
  assumes "ResNet_init c = Inr net"
    and "registry_get STAGE_SPECS (CONV_BODY c) = Inr specs"
  shows "(\<forall>p\<in>set (stem_parameters (stem net)). p = (FREEZE_CONV_BODY_AT c \<le> 0))
    \<and> (\<forall>s\<in>set specs. \<exists>m. layers net (layer_name (index s)) = Some m
          \<and> length m = block_count s
          \<and> (\<forall>p\<in>set (stage_parameters m). p = (FREEZE_CONV_BODY_AT c \<le> int (index s))))"
proof -
  let ?f = "FREEZE_CONV_BODY_AT c"
  from assms(1) obtain sm specs' tm strides ms where
    sp: "registry_get STAGE_SPECS (CONV_BODY c) = Inr specs'"
    and bs: "\<forall>j<length specs'. build_stage c tm strides j (specs' ! j)
        (if j = 0 then STEM_OUT_CHANNELS c else stage_out_channels c (specs' ! (j - 1)))
        = Inr (ms ! j)"
    and st: "stem net = (if 0 < ?f then freeze_stem (stem_call sm c) else stem_call sm c)"
    and ly: "\<forall>j<length specs'. layers net (layer_name (index (specs' ! j))) =
        Some (if int (index (specs' ! j)) < ?f then map freeze_block (ms ! j) else ms ! j)"
    by (rule ResNet_init_Inr)
  from sp assms(2) have eq: "specs' = specs" by simp
  note bs = bs [unfolded eq] and ly = ly [unfolded eq]
  have stem: "\<forall>p\<in>set (stem_parameters (stem net)). p = (?f \<le> 0)"
  proof (cases "0 < ?f")
    case True
    then show ?thesis using stem_parameters_freeze st by auto
  next
    case False
    then show ?thesis using stem_parameters_call st by auto
  qed
  have stage: "\<exists>m. layers net (layer_name (index s)) = Some m \<and> length m = block_count s
          \<and> (\<forall>p\<in>set (stage_parameters m). p = (?f \<le> int (index s)))"
    if "s \<in> set specs" for s
  proof -
    from that obtain j where j: "j < length specs" and s: "s = specs ! j"
      by (auto simp: in_set_conv_nth)
    from bs j have bj: "build_stage c tm strides j (specs ! j)
        (if j = 0 then STEM_OUT_CHANNELS c else stage_out_channels c (specs ! (j - 1)))
        = Inr (ms ! j)" by blast
    let ?m = "if int (index s) < ?f then map freeze_block (ms ! j) else ms ! j"
    from ly j s have 1: "layers net (layer_name (index s)) = Some ?m" by blast
    have 2: "length ?m = block_count s" using build_stage_length [OF bj] s by simp
    have 3: "\<forall>p\<in>set (stage_parameters ?m). p = (?f \<le> int (index s))"
    proof (cases "int (index s) < ?f")
      case True
      then show ?thesis using stage_parameters_freeze [of _ "ms ! j"] by auto
    next
      case False
      then show ?thesis using build_stage_parameters [OF bj] by auto
    qed
    from 1 2 3 show ?thesis by blast
  qed
  from stem stage show ?thesis by blast
qed

theorem freeze_backbone_parameters_witness:
  "(case ResNet_init cfg_c4 of
      Inl e \<Rightarrow> False
    | Inr net \<Rightarrow>
        list_all Not (stem_parameters (stem net))
      \<and> map_option (\<lambda>m. (length m, list_all Not (stage_parameters m))) (layers net ''layer1'')
          = Some (3, True)
      \<and> map_option (\<lambda>m. (length m, list_all id (stage_parameters m))) (layers net ''layer2'')
          = Some (4, True)
      \<and> map_option (\<lambda>m. (length m, list_all id (stage_parameters m))) (layers net ''layer3'')
          = Some (6, True))"
proof -
  have ok: "(case ResNet_init cfg_c4 of Inl e \<Rightarrow> False | Inr net \<Rightarrow> True)" by code_simp
  then obtain net where net: "ResNet_init cfg_c4 = Inr net"
    by (cases "ResNet_init cfg_c4") simp_all
  have sp: "registry_get STAGE_SPECS (CONV_BODY cfg_c4) = Inr ResNet50StagesTo4" by code_simp
  have f: "FREEZE_CONV_BODY_AT cfg_c4 = 2" by (simp add: cfg_c4_def)
  have specs: "ResNet50StagesTo4 =
     [\<lparr>index = 1, block_count = 3, return_features = False\<rparr>,
      \<lparr>index = 2, block_count = 4, return_features = False\<rparr>,
      \<lparr>index = 3, block_count = 6, return_features = True\<rparr>]"
    by (simp add: ResNet50StagesTo4_def mk_specs_def)
  note t = freeze_backbone_parameters [OF net sp, unfolded f specs]
  from t have a: "list_all Not (stem_parameters (stem net))"
    by (auto simp: list_all_iff)
  from t obtain m1 where "layers net (layer_name 1) = Some m1" "length m1 = 3"
    "\<forall>p\<in>set (stage_parameters m1). p = ((2::int) \<le> int 1)" by auto
  then have b: "map_option (\<lambda>m. (length m, list_all Not (stage_parameters m))) (layers net ''layer1'')
          = Some (3, True)" by (auto simp: list_all_iff layer_names)
  from t obtain m2 where "layers net (layer_name 2) = Some m2" "length m2 = 4"
    "\<forall>p\<in>set (stage_parameters m2). p = ((2::int) \<le> int 2)" by auto
  then have c: "map_option (\<lambda>m. (length m, list_all id (stage_parameters m))) (layers net ''layer2'')
          = Some (4, True)" by (auto simp: list_all_iff layer_names)
  from t obtain m3 where "layers net (layer_name 3) = Some m3" "length m3 = 6"
    "\<forall>p\<in>set (stage_parameters m3). p = ((2::int) \<le> int 3)" by auto
  then have d: "map_option (\<lambda>m. (length m, list_all id (stage_parameters m))) (layers net ''layer3'')
          = Some (6, True)" by (auto simp: list_all_iff layer_names)
  from a b c d net show ?thesis by simp
qed

section \<open>The forward pass\<close>

lemma length_stage_outputs: "length (stage_outputs ops ms x) = length ms"
  by (induction ms arbitrary: x) (simp_all add: Let_def)

lemma ResNet_forward_loop_exported:
  "length ms = length specs \<Longrightarrow>
   (\<forall>j<length specs. layers self (nm (specs ! j)) = Some (ms ! j)
        \<and> return_features_of self (nm (specs ! j)) = Some (return_features (specs ! j))) \<Longrightarrow>
   ResNet_forward_loop ops self (map nm specs) x outputs =
     Inr (outputs @ map snd (filter (\<lambda>(s, y). return_features s)
                               (zip specs (stage_outputs ops ms x))))"
proof (induction specs arbitrary: ms x outputs)
  case Nil
  then show ?case by simp
next
  case (Cons s specs)
  from Cons.prems(1) obtain m ms' where ms: "ms = m # ms'" and len: "length ms' = length specs"
    by (cases ms) simp_all
  from Cons.prems(2) [rule_format, of 0] ms
  have h: "layers self (nm s) = Some m" "return_features_of self (nm s) = Some (return_features s)"
    by simp_all
  have t: "\<forall>j<length specs. layers self (nm (specs ! j)) = Some (ms' ! j)
        \<and> return_features_of self (nm (specs ! j)) = Some (return_features (specs ! j))"
  proof (intro allI impI)
    fix j assume "j < length specs"
    with Cons.prems(2) [rule_format, of "Suc j"] ms
    show "layers self (nm (specs ! j)) = Some (ms' ! j)
        \<and> return_features_of self (nm (specs ! j)) = Some (return_features (specs ! j))"
      by simp
  qed
  note ih = Cons.IH [OF len t]
  show ?case
    by (simp add: h ms ih Let_def)
qed

text \<open>
  Claim C9. For every constructed backbone and every input, the forward pass succeeds
  and returns, in the order of the stage specifications (whose indices are 1, 2, ...,
  in increasing order), the outputs of exactly the stages marked \<open>return_features\<close>;
  the output of a stage is that stage applied to the output of the stage before it, the
  first one to the output of the stem.
\<close>

theorem forward_exported_stages:
  assumes "ResNet_init c = Inr net"
    and "registry_get STAGE_SPECS (CONV_BODY c) = Inr specs"
  shows "\<exists>ms. length ms = length specs
      \<and> map index specs = map Suc [0..<length specs]
      \<and> (\<forall>j<length specs. layers net (layer_name (index (specs ! j))) = Some (ms ! j))
      \<and> ResNet_forward ops net x =
          Inr (map snd (filter (\<lambda>(s, y). return_features s)
                 (zip specs (stage_outputs ops ms (BaseStem_forward ops (stem net) x)))))"
proof -
  let ?f = "FREEZE_CONV_BODY_AT c"
  from assms(1) obtain sm specs' tm strides ms where
    sp: "registry_get STAGE_SPECS (CONV_BODY c) = Inr specs'"
    and len: "length ms = length specs'"
    and sg: "stages net = map (\<lambda>s. layer_name (index s)) specs'"
    and ly: "\<forall>j<length specs'. layers net (layer_name (index (specs' ! j))) =
        Some (if int (index (specs' ! j)) < ?f then map freeze_block (ms ! j) else ms ! j)"
    and rf: "\<forall>j<length specs'. return_features_of net (layer_name (index (specs' ! j))) =
        Some (return_features (specs' ! j))"
    by (rule ResNet_init_Inr)
  from sp assms(2) have eq: "specs' = specs" by simp
  note len = len [unfolded eq] and sg = sg [unfolded eq] and ly = ly [unfolded eq]
    and rf = rf [unfolded eq]
  define ms' where "ms' = map (\<lambda>j. if int (index (specs ! j)) < ?f
                                     then map freeze_block (ms ! j) else ms ! j) [0..<length specs]"
  have l': "length ms' = length specs" by (simp add: ms'_def)
  have a: "\<forall>j<length specs. layers net (layer_name (index (specs ! j))) = Some (ms' ! j)"
    using ly by (simp add: ms'_def)
  have b: "\<forall>j<length specs. layers net (layer_name (index (specs ! j))) = Some (ms' ! j)
        \<and> return_features_of net (layer_name (index (specs ! j))) = Some (return_features (specs ! j))"
    using a rf by blast
  have "ResNet_forward ops net x =
          Inr ([] @ map snd (filter (\<lambda>(s, y). return_features s)
                 (zip specs (stage_outputs ops ms' (BaseStem_forward ops (stem net) x)))))"
    unfolding ResNet_forward_def Let_def sg
    by (rule ResNet_forward_loop_exported [OF l' b])
  then have c: "ResNet_forward ops net x =
          Inr (map snd (filter (\<lambda>(s, y). return_features s)
                 (zip specs (stage_outputs ops ms' (BaseStem_forward ops (stem net) x)))))"
    by simp
  from l' catalog_indices [OF assms(2)] a c show ?thesis by blast
qed

theorem forward_exported_stages_witness:
  "(case ResNet_init cfg_c4 of
      Inl e \<Rightarrow> False
    | Inr net \<Rightarrow>
        (case layers net ''layer1'' of None \<Rightarrow> False | Some m1 \<Rightarrow>
         case layers net ''layer2'' of None \<Rightarrow> False | Some m2 \<Rightarrow>
         case layers net ''layer3'' of None \<Rightarrow> False | Some m3 \<Rightarrow>
           ResNet_forward int_ops net 1 =
             Inr [Sequential_forward int_ops m3 (Sequential_forward int_ops m2
                    (Sequential_forward int_ops m1 (BaseStem_forward int_ops (stem net) 1)))]))"
proof -
  have ok: "(case ResNet_init cfg_c4 of Inl e \<Rightarrow> False | Inr net \<Rightarrow> True)" by code_simp
  then obtain net where net: "ResNet_init cfg_c4 = Inr net"
    by (cases "ResNet_init cfg_c4") simp_all
  have sp: "registry_get STAGE_SPECS (CONV_BODY cfg_c4) = Inr ResNet50StagesTo4" by code_simp
  have specs: "ResNet50StagesTo4 =
     [\<lparr>index = 1, block_count = 3, return_features = False\<rparr>,
      \<lparr>index = 2, block_count = 4, return_features = False\<rparr>,
      \<lparr>index = 3, block_count = 6, return_features = True\<rparr>]"
    by (simp add: ResNet50StagesTo4_def mk_specs_def)
  have l3: "length ResNet50StagesTo4 = 3" by (simp add: specs)
  from forward_exported_stages [OF net sp, of int_ops 1, unfolded l3] obtain ms where
    len: "length ms = 3"
    and ly: "\<forall>j<3. layers net (layer_name (index (ResNet50StagesTo4 ! j))) = Some (ms ! j)"
    and fw: "ResNet_forward int_ops net 1 =
          Inr (map snd (filter (\<lambda>(s, y). return_features s)
                 (zip ResNet50StagesTo4
                    (stage_outputs int_ops ms (BaseStem_forward int_ops (stem net) 1)))))"
    by blast
  from len obtain m1 m2 m3 where ms: "ms = [m1, m2, m3]"
    by (cases ms; cases "tl ms"; cases "tl (tl ms)") auto
  from ly [rule_format, of 0] ly [rule_format, of 1] ly [rule_format, of 2]
  have l: "layers net ''layer1'' = Some m1" "layers net ''layer2'' = Some m2"
    "layers net ''layer3'' = Some m3"
    by (simp_all add: ms specs layer_names)
  from fw have "ResNet_forward int_ops net 1 =
             Inr [Sequential_forward int_ops m3 (Sequential_forward int_ops m2
                    (Sequential_forward int_ops m1 (BaseStem_forward int_ops (stem net) 1)))]"
    by (simp add: ms specs Let_def)
  with l net show ?thesis by simp
qed

section \<open>Kernel sizes\<close>





section \<open>The stride schedule\<close>

lemma stride_call:
  "block_stride s1x1 (transformation_call tm ic bc oc ng s1x1 st dil dcn mk ub) = Some st"
  by (simp add: block_stride_def transformation_call_def Bottleneck_init_def Let_def
      spatial_stride_def)

lemma dilation_call:
  "spatial_dilation (conv2 (transformation_call tm ic bc oc ng s1x1 st dil dcn mk ub)) = Some dil"
  by (simp add: spatial_dilation_def transformation_call_def Bottleneck_init_def Let_def)

lemma block_stride_freeze: "block_stride s1x1 (freeze_block b) = block_stride s1x1 b"
  by (cases "conv2 b")
     (simp_all add: block_stride_def freeze_block_def freeze_conv_def freeze_spatial_def
        spatial_stride_def)

lemma spatial_dilation_freeze:
  "spatial_dilation (conv2 (freeze_block b)) = spatial_dilation (conv2 b)"
  by (cases "conv2 b")
     (simp_all add: spatial_dilation_def freeze_block_def freeze_conv_def freeze_spatial_def)

lemma catalog_block_count:
  assumes "registry_get STAGE_SPECS nm = Inr specs" and "j < length specs"
  shows "0 < block_count (specs ! j)"
proof -
  have "\<forall>s\<in>set specs. 0 < block_count s"
    using catalog_cases [OF assms(1)]
    by (elim insertE emptyE)
       (simp_all add: mk_specs_def
          ResNet50StagesTo5_def ResNet50StagesTo4_def ResNet101StagesTo5_def ResNet101StagesTo4_def
          ResNet50FPNStagesTo5_def ResNet101FPNStagesTo5_def ResNet152FPNStagesTo5_def
          ResNet50_3_4_2_def ResNet50_3_4_8_def ResNet50_3_4_14_def ResNet50_3_4_20_def)
  with assms(2) show ?thesis by simp
qed

lemma build_stage_strides:
  assumes "build_stage c tm strides i s ic = Inr blocks" and "0 < block_count s"
  obtains fs d where "stage_stride_dilation c strides i s = Inr (fs, d)"
    "blocks \<noteq> []"
    "block_stride (STRIDE_IN_1X1 c) (hd blocks) = Some fs"
    "\<forall>b\<in>set (tl blocks). block_stride (STRIDE_IN_1X1 c) b = Some 1"
    "\<forall>b\<in>set blocks. spatial_dilation (conv2 b) = Some d"
proof -
  from assms(1) obtain wd mks fs d where
    sd: "stage_stride_dilation c strides i s = Inr (fs, d)"
    and b: "blocks = map (\<lambda>k. transformation_call tm (if k = 0 then ic else stage_out_channels c s)
                (NUM_GROUPS c * WIDTH_PER_GROUP c * 2 ^ (index s - 1)) (stage_out_channels c s)
                (NUM_GROUPS c) (STRIDE_IN_1X1 c) (if k = 0 then fs else 1) d
                \<lparr>stage_with_dcn = Some wd, with_modulated_dcn = Some (WITH_MODULATED_DCN c),
                 deformable_groups = Some (DEFORMABLE_GROUPS c)\<rparr>
                (mks ! k)
                (layer_name (index s) \<in> set (DONT_LOAD c)
                  \<and> TRANS_FUNC c = ''BottleneckWithFixedBatchNorm''))
              [0..<block_count s]"
    by (rule build_stage_Inr)
  from assms(2) have u: "[0..<block_count s] = 0 # [1..<block_count s]"
    by (simp add: upt_conv_Cons)
  have 1: "blocks \<noteq> []" using b u by simp
  have 2: "block_stride (STRIDE_IN_1X1 c) (hd blocks) = Some fs"
    unfolding b u by (simp add: stride_call)
  have 3: "\<forall>b\<in>set (tl blocks). block_stride (STRIDE_IN_1X1 c) b = Some 1"
    unfolding b u by (auto simp: stride_call)
  have 4: "\<forall>b\<in>set blocks. spatial_dilation (conv2 b) = Some d"
    unfolding b by (auto simp: dilation_call)
  from sd 1 2 3 4 show ?thesis by (rule that)
qed

lemma stage_middle_ks_anchor:
  "stage_middle_ks (c\<lparr>ANCHOR_STRIDE := a\<rparr>) i s = stage_middle_ks c i s"
  by (simp add: stage_middle_ks_def split: sum.splits)

lemma stage_stride_dilation_anchor:
  "stage_stride_dilation (c\<lparr>ANCHOR_STRIDE := a\<rparr>) strides i s = stage_stride_dilation c strides i s"
  by (simp add: stage_stride_dilation_def split: option.splits sum.splits)

lemma stage_out_channels_anchor:
  "stage_out_channels (c\<lparr>ANCHOR_STRIDE := a\<rparr>) s = stage_out_channels c s"
  by (simp add: stage_out_channels_def)

lemma build_stage_anchor:
  "build_stage (c\<lparr>ANCHOR_STRIDE := a\<rparr>) tm strides i s ic = build_stage c tm strides i s ic"
  by (simp add: build_stage_def stage_middle_ks_anchor stage_stride_dilation_anchor
      stage_out_channels_anchor Let_def split: sum.splits prod.splits)

lemma ResNet_init_loop_anchor:
  "ResNet_init_loop (c\<lparr>ANCHOR_STRIDE := a\<rparr>) tm strides xs ic self
     = ResNet_init_loop c tm strides xs ic self"
proof (induction xs arbitrary: ic self)
  case Nil
  then show ?case by simp
next
  case (Cons x xs)
  obtain i s where x: "x = (i, s)" by (cases x)
  show ?case
    by (simp add: x build_stage_anchor Cons.IH stage_out_channels_anchor Let_def
        split: sum.splits)
qed

lemma ResNet_init_anchor:
  assumes "USE_FPN c \<or> RESREG c \<noteq> 0"
  shows "ResNet_init (c\<lparr>ANCHOR_STRIDE := a\<rparr>) = ResNet_init c"
proof -
  have 1: "anchor_strides (c\<lparr>ANCHOR_STRIDE := a\<rparr>) = anchor_strides c"
    using assms by (auto simp: anchor_strides_def)
  have 2: "stem_call sm (c\<lparr>ANCHOR_STRIDE := a\<rparr>) = stem_call sm c" for sm
    by (cases sm) (simp_all add: stem_call_def BaseStem_init_def)
  have 3: "dilations_assert (c\<lparr>ANCHOR_STRIDE := a\<rparr>) specs = dilations_assert c specs" for specs
    by (simp add: dilations_assert_def)
  show ?thesis
    unfolding ResNet_init_def
    by (simp add: 1 2 3 ResNet_init_loop_anchor Let_def split: sum.splits)
qed

lemma anchor_strides_table:
  assumes "\<not> USE_FPN c \<and> RESREG c = 0" and "ANCHOR_STRIDE c = a # rest"
  shows "anchor_strides c =
           (case spec_stride_table a of Some t \<Rightarrow> Inr (Some t) | None \<Rightarrow> Inl SystemExit)"
  using assms by (simp add: anchor_strides_def py_index_def spec_stride_table_def)

lemma anchor_strides_Inr:
  assumes "\<not> USE_FPN c \<and> RESREG c = 0" and "anchor_strides c = Inr strides"
  obtains t where "strides = Some t" "spec_stride_table (hd (ANCHOR_STRIDE c)) = Some t"
proof (cases "ANCHOR_STRIDE c")
  case Nil
  with assms show ?thesis by (simp add: anchor_strides_def py_index_def)
next
  case (Cons a rest)
  from assms(2) anchor_strides_table [OF assms(1) Cons]
  have e: "(case spec_stride_table a of Some t \<Rightarrow> Inr (Some t) | None \<Rightarrow> Inl SystemExit)
             = Inr strides" by simp
  show ?thesis
  proof (cases "spec_stride_table a")
    case None
    with e show ?thesis by simp
  next
    case (Some t)
    with e have "strides = Some t" by simp
    moreover from Some Cons have "spec_stride_table (hd (ANCHOR_STRIDE c)) = Some t" by simp
    ultimately show ?thesis by (rule that)
  qed
qed

lemma stage_stride_dilation_table:
  assumes "\<not> USE_FPN c \<and> RESREG c = 0"
    and "stage_stride_dilation c (Some t) i s = Inr (fs, d)"
  shows "i < length t \<and> fs = t ! i \<and> i < length (DILATIONS c) \<and> d = DILATIONS c ! i"
  using assms
  by (auto simp: stage_stride_dilation_def py_index_def split: if_splits)

lemma stage_stride_dilation_fpn:
  assumes "USE_FPN c \<or> RESREG c \<noteq> 0"
  shows "stage_stride_dilation c strides i s = Inr (if index s > 1 then 2 else 1, 1)"
  using assms by (auto simp: stage_stride_dilation_def)

lemma ResNet_init_bad_anchor:
  assumes "\<not> USE_FPN c \<and> RESREG c = 0" and "ANCHOR_STRIDE c = a # rest"
    and "spec_stride_table a = None"
    and "registry_get STEM_MODULES (STEM_FUNC c) = Inr sm"
    and "registry_get STAGE_SPECS (CONV_BODY c) = Inr sp"
    and "registry_get TRANSFORMATION_MODULES (TRANS_FUNC c) = Inr tm"
  shows "ResNet_init c = Inl SystemExit"
  unfolding ResNet_init_def
  using anchor_strides_table [OF assms(1,2)] assms(3-6) by (simp add: Let_def)

lemma first_strides_built:
  assumes net: "ResNet_init c = Inr net"
    and sp: "registry_get STAGE_SPECS (CONV_BODY c) = Inr specs"
    and j: "j < length specs"
  shows "\<exists>m fs d. layers net (layer_name (index (specs ! j))) = Some m \<and> m \<noteq> []
          \<and> block_stride (STRIDE_IN_1X1 c) (hd m) = Some fs
          \<and> (\<forall>b\<in>set (tl m). block_stride (STRIDE_IN_1X1 c) b = Some 1)
          \<and> (\<forall>b\<in>set m. spatial_dilation (conv2 b) = Some d)
          \<and> (if USE_FPN c \<or> RESREG c \<noteq> 0
              then fs = (if index (specs ! j) > 1 then 2 else 1) \<and> d = 1
              else (\<exists>t. spec_stride_table (hd (ANCHOR_STRIDE c)) = Some t \<and> j < length t
                      \<and> fs = t ! j \<and> j < length (DILATIONS c) \<and> d = DILATIONS c ! j))"
proof -
  let ?f = "FREEZE_CONV_BODY_AT c"
  let ?s = "specs ! j"
  from net obtain sm :: stem_class and specs' tm strides ms where
    sp': "registry_get STAGE_SPECS (CONV_BODY c) = Inr specs'"
    and an: "anchor_strides c = Inr strides"
    and bs: "\<forall>j<length specs'. build_stage c tm strides j (specs' ! j)
        (if j = 0 then STEM_OUT_CHANNELS c else stage_out_channels c (specs' ! (j - 1)))
        = Inr (ms ! j)"
    and ly: "\<forall>j<length specs'. layers net (layer_name (index (specs' ! j))) =
        Some (if int (index (specs' ! j)) < ?f then map freeze_block (ms ! j) else ms ! j)"
    by (rule ResNet_init_Inr)
  from sp' sp have eq: "specs' = specs" by simp
  note bs = bs [unfolded eq] and ly = ly [unfolded eq]
  from bs j have bj: "build_stage c tm strides j ?s
        (if j = 0 then STEM_OUT_CHANNELS c else stage_out_channels c (specs ! (j - 1)))
        = Inr (ms ! j)" by blast
  from bj catalog_block_count [OF sp j] obtain fs d where
    sd: "stage_stride_dilation c strides j ?s = Inr (fs, d)"
    and ne: "ms ! j \<noteq> []"
    and h: "block_stride (STRIDE_IN_1X1 c) (hd (ms ! j)) = Some fs"
    and t: "\<forall>b\<in>set (tl (ms ! j)). block_stride (STRIDE_IN_1X1 c) b = Some 1"
    and dl: "\<forall>b\<in>set (ms ! j). spatial_dilation (conv2 b) = Some d"
    by (rule build_stage_strides)
  let ?m = "if int (index ?s) < ?f then map freeze_block (ms ! j) else ms ! j"
  from ly j have 1: "layers net (layer_name (index ?s)) = Some ?m" by blast
  have 2: "?m \<noteq> []" using ne by simp
  have 3: "block_stride (STRIDE_IN_1X1 c) (hd ?m) = Some fs"
    using ne h by (simp add: hd_map block_stride_freeze)
  have 4: "\<forall>b\<in>set (tl ?m). block_stride (STRIDE_IN_1X1 c) b = Some 1"
    using t by (auto simp: map_tl [symmetric] block_stride_freeze)
  have 5: "\<forall>b\<in>set ?m. spatial_dilation (conv2 b) = Some d"
    using dl by (auto simp: spatial_dilation_freeze)
  have 6: "(if USE_FPN c \<or> RESREG c \<noteq> 0
              then fs = (if index ?s > 1 then 2 else 1) \<and> d = 1
              else (\<exists>t. spec_stride_table (hd (ANCHOR_STRIDE c)) = Some t \<and> j < length t
                      \<and> fs = t ! j \<and> j < length (DILATIONS c) \<and> d = DILATIONS c ! j))"
  proof (cases "USE_FPN c \<or> RESREG c \<noteq> 0")
    case True
    from sd stage_stride_dilation_fpn [OF True, of strides j ?s] True show ?thesis by simp
  next
    case False
    then have nf: "\<not> USE_FPN c \<and> RESREG c = 0" by simp
    from nf an obtain t where st: "strides = Some t"
      and tb: "spec_stride_table (hd (ANCHOR_STRIDE c)) = Some t"
      by (rule anchor_strides_Inr)
    from stage_stride_dilation_table [OF nf sd [unfolded st]] tb False show ?thesis by simp
  qed
  from 1 2 3 4 5 6 show ?thesis by blast
qed

text \<open>
  Claim C3. Without pyramid network and without channel adapter
  (\<open>USE_FPN\<close> false and \<open>RESREG = 0\<close>), the stride schedule computed from the first
  anchor stride is the entry of the specification's table, any value without an entry
  ends construction with \<open>SystemExit\<close>, and the stage at position \<open>i\<close> takes the
  \<open>i\<close>-th stride of the schedule and the \<open>i\<close>-th configured dilation. With a
  pyramid network or an adapter, no schedule is computed, a stage gets first stride 2
  when its index exceeds 1 and 1 otherwise, its dilation is 1, and the anchor stride has
  no influence on what is constructed. In every constructed backbone the first block of
  each stage carries exactly that first stride, the later blocks stride 1, and all
  blocks that dilation.
\<close>

theorem stride_schedule:
  "(\<not> USE_FPN c \<and> RESREG c = 0 \<longrightarrow>
      (\<forall>a rest. ANCHOR_STRIDE c = a # rest \<longrightarrow>
          anchor_strides c =
            (case spec_stride_table a of Some t \<Rightarrow> Inr (Some t) | None \<Rightarrow> Inl SystemExit)
        \<and> (spec_stride_table a = None
            \<and> (\<exists>sm. registry_get STEM_MODULES (STEM_FUNC c) = Inr sm)
            \<and> (\<exists>sp. registry_get STAGE_SPECS (CONV_BODY c) = Inr sp)
            \<and> (\<exists>tm. registry_get TRANSFORMATION_MODULES (TRANS_FUNC c) = Inr tm)
            \<longrightarrow> ResNet_init c = Inl SystemExit))
    \<and> (\<forall>t::int list. i < length t \<and> i < length (DILATIONS c) \<longrightarrow>
          stage_stride_dilation c (Some t) i s = Inr (t ! i, DILATIONS c ! i)))
  \<and> (USE_FPN c \<or> RESREG c \<noteq> 0 \<longrightarrow>
        anchor_strides c = Inr None
      \<and> stage_stride_dilation c strides i s = Inr (if index s > 1 then 2 else 1, 1)
      \<and> ResNet_init (c\<lparr>ANCHOR_STRIDE := a'\<rparr>) = ResNet_init c)
  \<and> (ResNet_init c = Inr net \<and> registry_get STAGE_SPECS (CONV_BODY c) = Inr specs
        \<and> j < length specs \<longrightarrow>
      (\<exists>m fs d. layers net (layer_name (index (specs ! j))) = Some m \<and> m \<noteq> []
          \<and> block_stride (STRIDE_IN_1X1 c) (hd m) = Some fs
          \<and> (\<forall>b\<in>set (tl m). block_stride (STRIDE_IN_1X1 c) b = Some 1)
          \<and> (\<forall>b\<in>set m. spatial_dilation (conv2 b) = Some d)
          \<and> (if USE_FPN c \<or> RESREG c \<noteq> 0
              then fs = (if index (specs ! j) > 1 then 2 else 1) \<and> d = 1
              else (\<exists>t. spec_stride_table (hd (ANCHOR_STRIDE c)) = Some t \<and> j < length t
                      \<and> fs = t ! j \<and> j < length (DILATIONS c) \<and> d = DILATIONS c ! j))))"
proof (intro conjI impI allI)
  fix a rest
  assume nf: "\<not> USE_FPN c \<and> RESREG c = 0" and a: "ANCHOR_STRIDE c = a # rest"
  show "anchor_strides c =
            (case spec_stride_table a of Some t \<Rightarrow> Inr (Some t) | None \<Rightarrow> Inl SystemExit)"
    by (rule anchor_strides_table [OF nf a])
  assume "spec_stride_table a = None
            \<and> (\<exists>sm. registry_get STEM_MODULES (STEM_FUNC c) = Inr sm)
            \<and> (\<exists>sp. registry_get STAGE_SPECS (CONV_BODY c) = Inr sp)
            \<and> (\<exists>tm. registry_get TRANSFORMATION_MODULES (TRANS_FUNC c) = Inr tm)"
  then show "ResNet_init c = Inl SystemExit"
    using ResNet_init_bad_anchor [OF nf a] by blast
next
  fix t :: "int list"
  assume "\<not> USE_FPN c \<and> RESREG c = 0" and "i < length t \<and> i < length (DILATIONS c)"
  then show "stage_stride_dilation c (Some t) i s = Inr (t ! i, DILATIONS c ! i)"
    by (simp add: stage_stride_dilation_def py_index_def)
next
  assume f: "USE_FPN c \<or> RESREG c \<noteq> 0"
  then show "anchor_strides c = Inr None" by (auto simp: anchor_strides_def)
  show "stage_stride_dilation c strides i s = Inr (if index s > 1 then 2 else 1, 1)"
    by (rule stage_stride_dilation_fpn [OF f])
  show "ResNet_init (c\<lparr>ANCHOR_STRIDE := a'\<rparr>) = ResNet_init c"
    by (rule ResNet_init_anchor [OF f])
next
  assume "ResNet_init c = Inr net \<and> registry_get STAGE_SPECS (CONV_BODY c) = Inr specs
        \<and> j < length specs"
  then show "\<exists>m fs d. layers net (layer_name (index (specs ! j))) = Some m \<and> m \<noteq> []
          \<and> block_stride (STRIDE_IN_1X1 c) (hd m) = Some fs
          \<and> (\<forall>b\<in>set (tl m). block_stride (STRIDE_IN_1X1 c) b = Some 1)
          \<and> (\<forall>b\<in>set m. spatial_dilation (conv2 b) = Some d)
          \<and> (if USE_FPN c \<or> RESREG c \<noteq> 0
              then fs = (if index (specs ! j) > 1 then 2 else 1) \<and> d = 1
              else (\<exists>t. spec_stride_table (hd (ANCHOR_STRIDE c)) = Some t \<and> j < length t
                      \<and> fs = t ! j \<and> j < length (DILATIONS c) \<and> d = DILATIONS c ! j))"
    using first_strides_built by blast
qed

theorem stride_schedule_witness:
  "anchor_strides cfg_c4 = Inr (Some [1, 2, 2])
   \<and> stage_stride_dilation cfg_c4 (Some [1, 2, 2]) 2
        \<lparr>index = 3, block_count = 6, return_features = True\<rparr> = Inr (2, 1)
   \<and> ResNet_init (cfg_c4\<lparr>ANCHOR_STRIDE := [5]\<rparr>) = Inl SystemExit
   \<and> anchor_strides cfg_fpn = Inr None
   \<and> stage_stride_dilation cfg_fpn None 0
        \<lparr>index = 1, block_count = 3, return_features = True\<rparr> = Inr (1, 1)
   \<and> stage_stride_dilation cfg_fpn None 3
        \<lparr>index = 4, block_count = 3, return_features = True\<rparr> = Inr (2, 1)
   \<and> ResNet_init (cfg_fpn\<lparr>ANCHOR_STRIDE := [7]\<rparr>) = ResNet_init cfg_fpn
   \<and> (case ResNet_init cfg_c4 of
         Inl e \<Rightarrow> False
       | Inr net \<Rightarrow>
           (case layers net ''layer2'' of
              None \<Rightarrow> False
            | Some m \<Rightarrow> m \<noteq> [] \<and> block_stride True (hd m) = Some 2
                \<and> list_all (\<lambda>b. block_stride True b = Some 1) (tl m)
                \<and> list_all (\<lambda>b. spatial_dilation (conv2 b) = Some 1) m))"
proof -
  let ?s1 = "\<lparr>index = 1, block_count = 3, return_features = True\<rparr>"
  let ?s3 = "\<lparr>index = 3, block_count = 6, return_features = True\<rparr>"
  let ?s4 = "\<lparr>index = 4, block_count = 3, return_features = True\<rparr>"
  let ?bad = "cfg_c4\<lparr>ANCHOR_STRIDE := [5]\<rparr>"
  have nf: "\<not> USE_FPN cfg_c4 \<and> RESREG cfg_c4 = 0" by (simp add: cfg_c4_def)
  have an: "ANCHOR_STRIDE cfg_c4 = [16]" by (simp add: cfg_c4_def)
  have dl: "DILATIONS cfg_c4 = [1, 1, 1]" by (simp add: cfg_c4_def)
  have s1: "STRIDE_IN_1X1 cfg_c4 = True" by (simp add: cfg_c4_def)
  have fp: "USE_FPN cfg_fpn \<or> RESREG cfg_fpn \<noteq> 0" by (simp add: cfg_fpn_def)
  have nfb: "\<not> USE_FPN ?bad \<and> RESREG ?bad = 0" by (simp add: cfg_c4_def)
  have anb: "ANCHOR_STRIDE ?bad = [5]" by simp
  have r1: "\<exists>sm. registry_get STEM_MODULES (STEM_FUNC ?bad) = Inr sm"
    by (simp add: cfg_c4_def registry_get_def STEM_MODULES_def)
  have r2: "\<exists>sp. registry_get STAGE_SPECS (CONV_BODY ?bad) = Inr sp"
    by (simp add: cfg_c4_def registry_get_def STAGE_SPECS_def)
  have r3: "\<exists>tm. registry_get TRANSFORMATION_MODULES (TRANS_FUNC ?bad) = Inr tm"
    by (simp add: cfg_c4_def registry_get_def TRANSFORMATION_MODULES_def)
  have t5: "spec_stride_table 5 = None" by (simp add: spec_stride_table_def)
  have t16: "spec_stride_table 16 = Some [1, 2, 2]" by (simp add: spec_stride_table_def)
  from stride_schedule [where c = cfg_c4] nf an
  have "anchor_strides cfg_c4 =
      (case spec_stride_table 16 of Some t \<Rightarrow> Inr (Some t) | None \<Rightarrow> Inl SystemExit)"
    by blast
  then have a: "anchor_strides cfg_c4 = Inr (Some [1, 2, 2])" by (simp add: t16)
  from stride_schedule [where c = cfg_c4 and i = 2 and s = ?s3] nf
  have "(2::nat) < length [1, 2, 2 :: int] \<and> 2 < length (DILATIONS cfg_c4) \<longrightarrow>
          stage_stride_dilation cfg_c4 (Some [1, 2, 2]) 2 ?s3
            = Inr ([1, 2, 2] ! 2, DILATIONS cfg_c4 ! 2)"
    by blast
  then have b: "stage_stride_dilation cfg_c4 (Some [1, 2, 2]) 2 ?s3 = Inr (2, 1)"
    by (simp add: dl)
  from stride_schedule [where c = ?bad] nfb anb r1 r2 r3 t5
  have c: "ResNet_init ?bad = Inl SystemExit" by blast
  from stride_schedule [where c = cfg_fpn] fp
  have d: "anchor_strides cfg_fpn = Inr None" by blast
  from stride_schedule [where c = cfg_fpn and strides = None and i = 0 and s = ?s1] fp
  have "stage_stride_dilation cfg_fpn None 0 ?s1 = Inr (if index ?s1 > 1 then 2 else 1, 1)"
    by blast
  then have e: "stage_stride_dilation cfg_fpn None 0 ?s1 = Inr (1, 1)" by simp
  from stride_schedule [where c = cfg_fpn and strides = None and i = 3 and s = ?s4] fp
  have "stage_stride_dilation cfg_fpn None 3 ?s4 = Inr (if index ?s4 > 1 then 2 else 1, 1)"
    by blast
  then have f: "stage_stride_dilation cfg_fpn None 3 ?s4 = Inr (2, 1)" by simp
  from stride_schedule [where c = cfg_fpn and a' = "[7]"] fp
  have g: "ResNet_init (cfg_fpn\<lparr>ANCHOR_STRIDE := [7]\<rparr>) = ResNet_init cfg_fpn" by blast
  have ok: "(case ResNet_init cfg_c4 of Inl e \<Rightarrow> False | Inr net \<Rightarrow> True)" by code_simp
  then obtain net where net: "ResNet_init cfg_c4 = Inr net"
    by (cases "ResNet_init cfg_c4") simp_all
  have sp: "registry_get STAGE_SPECS (CONV_BODY cfg_c4) = Inr ResNet50StagesTo4" by code_simp
  have specs: "ResNet50StagesTo4 =
     [\<lparr>index = 1, block_count = 3, return_features = False\<rparr>,
      \<lparr>index = 2, block_count = 4, return_features = False\<rparr>,
      \<lparr>index = 3, block_count = 6, return_features = True\<rparr>]"
    by (simp add: ResNet50StagesTo4_def mk_specs_def)
  have j: "(1::nat) < length ResNet50StagesTo4" by (simp add: specs)
  have ix: "index (ResNet50StagesTo4 ! 1) = 2" by (simp add: specs)
  from stride_schedule [where c = cfg_c4 and net = net and specs = ResNet50StagesTo4 and j = 1]
    net sp j
  obtain m fs dd where m: "layers net (layer_name (index (ResNet50StagesTo4 ! 1))) = Some m"
    and ne: "m \<noteq> []"
    and hd: "block_stride (STRIDE_IN_1X1 cfg_c4) (hd m) = Some fs"
    and tl: "\<forall>b\<in>set (tl m). block_stride (STRIDE_IN_1X1 cfg_c4) b = Some 1"
    and di: "\<forall>b\<in>set m. spatial_dilation (conv2 b) = Some dd"
    and ex: "(if USE_FPN cfg_c4 \<or> RESREG cfg_c4 \<noteq> 0
              then fs = (if index (ResNet50StagesTo4 ! 1) > 1 then 2 else 1) \<and> dd = 1
              else (\<exists>t. spec_stride_table (hd (ANCHOR_STRIDE cfg_c4)) = Some t \<and> 1 < length t
                      \<and> fs = t ! 1 \<and> 1 < length (DILATIONS cfg_c4) \<and> dd = DILATIONS cfg_c4 ! 1))"
    by blast
  from ex nf have fd: "fs = 2 \<and> dd = 1" by (auto simp: an dl t16)
  note m' = m [unfolded ix layer_names]
  from fd m' ne hd tl di have "layers net ''layer2'' = Some m \<and> m \<noteq> []
      \<and> block_stride True (hd m) = Some 2
      \<and> list_all (\<lambda>b. block_stride True b = Some 1) (tl m)
      \<and> list_all (\<lambda>b. spatial_dilation (conv2 b) = Some 1) m"
    by (simp add: s1 list_all_iff)
  with net have h: "(case ResNet_init cfg_c4 of
         Inl e \<Rightarrow> False
       | Inr net \<Rightarrow>
           (case layers net ''layer2'' of
              None \<Rightarrow> False
            | Some m \<Rightarrow> m \<noteq> [] \<and> block_stride True (hd m) = Some 2
                \<and> list_all (\<lambda>b. block_stride True b = Some 1) (tl m)
                \<and> list_all (\<lambda>b. spatial_dilation (conv2 b) = Some 1) m))"
    by simp
  from a b c d e f g h show ?thesis by blast
qed

end
